theory Spec2Isabelle
  imports Complex_Main "HOL-Library.Multiset"
begin

section \<open>Tensors, errors and the TensorFlow primitives used by web_demo.py\<close>

text \<open>
  \<^verbatim>\<open>evaluate\<close> starts from \<^verbatim>\<open>output = [[start]]\<close> and the image has shape
  \<^verbatim>\<open>[1, H, W, 1]\<close>, so every logits tensor of the program has shape \<^verbatim>\<open>(1, vocab)\<close>.
  Such a tensor is embedded as its single row, a \<open>real list\<close>; token tensors of shape
  \<^verbatim>\<open>(1, n)\<close> are \<open>int list\<close>s. A score is a real number, the value of a finite 32-bit
  float. Sorting, comparing and selecting are exact on such values and are defined
  below. The three operations whose result depends on float rounding (softmax, the
  cumulative sum and the division by the temperature) are not computed by the
  embedding: they are the fields of a record \<open>tensorflow\<close> that every function of the
  decoder takes as its first argument, and the theorems hold for every value of it.
  Infinities and NaN are not real numbers: where the program produces them (a division
  by a zero temperature, an overflow) the field's value stands for nothing, and no
  theorem below says what the program returns there beyond what holds for every row.

  Errors are values. \<open>InvalidArgumentError\<close> is what TensorFlow raises on a bad
  argument of an op, \<open>ValueError\<close> what \<^verbatim>\<open>tf.convert_to_tensor\<close> raises on \<^verbatim>\<open>None\<close>,
  \<open>UnboundLocalError\<close> is Python's error on reading a local variable that was never
  assigned, \<open>IndexError\<close> is an index out of range.
\<close>

datatype error =
    InvalidArgumentError | ValueError | UnboundLocalError | IndexError

text \<open>The constant \<^verbatim>\<open>-1e10\<close> that both filters write over a masked logit.\<close>

definition sentinel :: real where
  "sentinel = - (10 ^ 10)"

text \<open>\<^verbatim>\<open>tf.sort(x, direction='DESCENDING', axis=-1)\<close> on one row.\<close>

definition tf_sort_descending :: "real list \<Rightarrow> real list" where
  "tf_sort_descending xs = rev (sort xs)"

text \<open>
  \<^verbatim>\<open>values, _ = tf.nn.top_k(x, k=k)\<close>: the \<open>k\<close> largest entries in descending order.
  The op refuses a negative \<open>k\<close> and a row with fewer than \<open>k\<close> columns.
\<close>

definition tf_nn_top_k :: "real list \<Rightarrow> int \<Rightarrow> error + real list" where
  "tf_nn_top_k xs k =
     (if k < 0 \<or> int (length xs) < k then Inl InvalidArgumentError
      else Inr (take (nat k) (tf_sort_descending xs)))"

text \<open>
  \<^verbatim>\<open>tf.where(logits < min_values, tf.ones_like(logits) * -1e10, logits)\<close>, the
  expression that ends both filters.
\<close>

definition tf_where_below :: "real list \<Rightarrow> real \<Rightarrow> real list" where
  "tf_where_below logits min_values =
     map (\<lambda>x. if x < min_values then sentinel else x) logits"

text \<open>
  The float kernels: \<^verbatim>\<open>tf.nn.softmax(x, axis=-1)\<close> and \<^verbatim>\<open>tf.cumsum(x, axis=-1)\<close> on one
  row, and the division \<^verbatim>\<open>x / temperature\<close> of a row by a Python float. TensorFlow
  computes them in 32-bit floats, so their results are rounded: a cumulative sum of a
  softmax can end above 1. The scores of a row are real numbers (every finite float is
  one) and the three kernels are parameters of the program: what is proved of
  \<open>top_p_logits\<close>, \<open>evaluate\<close> and \<open>main\<close> is proved for every choice of them, also
  for what the division returns when the temperature is 0.
\<close>

record tensorflow =
  nn_softmax :: "real list \<Rightarrow> real list"
  cumsum :: "real list \<Rightarrow> real list"
  truediv :: "real list \<Rightarrow> real \<Rightarrow> real list"

text \<open>
  The same three operations in exact arithmetic, without rounding: the kernels of the
  concrete runs further down, none of which divides by 0.
\<close>

definition exact_softmax :: "real list \<Rightarrow> real list" where
  "exact_softmax xs = map (\<lambda>x. exp x / sum_list (map exp xs)) xs"

fun cumsum_from :: "real \<Rightarrow> real list \<Rightarrow> real list" where
  "cumsum_from acc [] = []"
| "cumsum_from acc (x # xs) = (acc + x) # cumsum_from (acc + x) xs"

definition exact_cumsum :: "real list \<Rightarrow> real list" where
  "exact_cumsum xs = cumsum_from 0 xs"

definition exact_arithmetic :: tensorflow where
  "exact_arithmetic =
     \<lparr>nn_softmax = exact_softmax, cumsum = exact_cumsum,
      truediv = (\<lambda>xs t. map (\<lambda>x. x / t) xs)\<rparr>"

text \<open>
  \<^verbatim>\<open>tf.gather_nd(sorted_logits, [[0, index]])\<close> on the single row: on the CPU (the only
  device the script leaves visible) an index out of range is an error.
\<close>

definition tf_gather_nd :: "real list \<Rightarrow> int \<Rightarrow> error + real" where
  "tf_gather_nd xs i =
     (if 0 \<le> i \<and> i < int (length xs) then Inr (xs ! nat i) else Inl InvalidArgumentError)"

text \<open>
  \<^verbatim>\<open>tf.argmax(x, axis=-1)\<close>: the smallest index of a largest entry. A row of no columns
  has no such index.
\<close>

definition tf_argmax :: "real list \<Rightarrow> error + int" where
  "tf_argmax xs =
     (case xs of
        [] \<Rightarrow> Inl InvalidArgumentError
      | _ \<Rightarrow> Inr (int (length (takeWhile (\<lambda>x. x \<noteq> Max (set xs)) xs))))"

section \<open>The two filters\<close>

text \<open>
  \<^verbatim>\<open>top_k_logits\<close> (lines 54-71). The inner function \<^verbatim>\<open>_top_k\<close> is \<open>inner_top_k\<close>; the
  \<^verbatim>\<open>tf.cond\<close> repeats the test \<^verbatim>\<open>k == 0\<close> and runs one of its two branches.
\<close>

definition inner_top_k :: "real list \<Rightarrow> int \<Rightarrow> error + real list" where
  "inner_top_k logits k =
     (case tf_nn_top_k logits k of
        Inl e \<Rightarrow> Inl e
      | Inr values \<Rightarrow>
          (case values of
             [] \<Rightarrow> Inl InvalidArgumentError
           | _ \<Rightarrow> (let min_values = last values in Inr (tf_where_below logits min_values))))"

definition top_k_logits :: "real list \<Rightarrow> int \<Rightarrow> error + real list" where
  "top_k_logits logits k =
     (if k = 0 then Inr logits
      else if k = 0 then Inr logits
      else inner_top_k logits k)"

text \<open>
  \<^verbatim>\<open>top_p_logits\<close> (lines 74-89), with \<^verbatim>\<open>batch = 1\<close>: the index into the sorted row is
  the number of cumulative probabilities that are at most \<open>p\<close>, minus one, and at least 0.
  The cumulative probabilities are those the kernels return.
\<close>

definition top_p_logits :: "tensorflow \<Rightarrow> real list \<Rightarrow> real \<Rightarrow> error + real list" where
  "top_p_logits tf logits p =
     (let sorted_logits = tf_sort_descending logits;
          cumulative_probs = cumsum tf (nn_softmax tf sorted_logits);
          index = max (sum_list (map (\<lambda>c. if c \<le> p then 1 else 0) cumulative_probs) - 1) (0 :: int)
      in case tf_gather_nd sorted_logits index of
           Inl e \<Rightarrow> Inl e
         | Inr min_values \<Rightarrow> Inr (tf_where_below logits min_values))"

section \<open>The page, the random generator and the external models\<close>

text \<open>
  What the script shows or logs is a list of events, in the order of the calls. The
  widgets that only read the user's choices (select box, number input, sliders, file
  uploader) are inputs and leave no event.
\<close>

datatype event =
    Title string
  | Text string
  | Sidebar_title string
  | Image string
  | Info string
  | Log_running_analysis
  | Spinner string
  | New_progress real
  | Progress real
  | Empty
  | Write string
  | Subheader string
  | Subplot nat string
  | Pyplot
  | Button string

text \<open>
  The state the script changes: the page, and the state of TensorFlow's random
  generator, which \<^verbatim>\<open>tf.random.categorical\<close> reads and advances. The generator's state
  is not visible in the source; its type is a parameter.
\<close>

record 'g world =
  rng :: 'g
  page :: "event list"

definition emit :: "event \<Rightarrow> 'g world \<Rightarrow> 'g world" where
  "emit e w = w\<lparr>page := page w @ [e]\<rparr>"

text \<open>
  The tokenizer (\<^verbatim>\<open>ByteLevelBPETokenizer\<close>) is external: the three methods the script
  calls are fields. \<^verbatim>\<open>token_to_id\<close> answers \<^verbatim>\<open>None\<close> for a token outside the vocabulary.
\<close>

record tokenizer =
  token_to_id :: "string \<Rightarrow> int option"
  decode :: "int list \<Rightarrow> string"
  get_vocab_size :: nat

text \<open>
  The transformer is external too: a function from the image and the token tensor to
  the predictions (one row of logits per position) and the attention weights.
  The sampler \<^verbatim>\<open>tf.random.categorical(logits, num_samples=1, seed=seed)\<close> is a function
  from the generator's state, the logits and the seed to the drawn id and the next state.
\<close>

type_synonym ('img, 'att) transformer = "'img \<Rightarrow> int list \<Rightarrow> real list list \<times> 'att"

type_synonym 'g categorical = "'g \<Rightarrow> real list \<Rightarrow> int \<Rightarrow> int \<times> 'g"

section \<open>The decoding loop\<close>

text \<open>
  One pass through lines 100-119 of \<^verbatim>\<open>evaluate\<close>: the model's logits at the last
  position, divided by the temperature, filtered, and the id chosen from them.
  TensorFlow divides by a zero temperature without raising and yields infinities and
  NaN, and decoding goes on with them; the embedding hands the temperature to the
  division kernel without a test, as line 110 does. With \<^verbatim>\<open>options\<close> neither
  \<^verbatim>\<open>'Greedy'\<close> nor \<^verbatim>\<open>'Sampling'\<close> the script writes a message and then reads
  \<^verbatim>\<open>predicted_id\<close>, which no pass has assigned (\<^verbatim>\<open>options\<close> never changes).
\<close>

definition decode_step ::
  "tensorflow \<Rightarrow> 'g categorical \<Rightarrow> 'img \<Rightarrow> ('img, 'att) transformer \<Rightarrow> real \<Rightarrow> int \<Rightarrow> real \<Rightarrow>
     string \<Rightarrow> int \<Rightarrow> int list \<Rightarrow> 'g world \<Rightarrow> (error + int \<times> 'att) \<times> 'g world" where
  "decode_step tf categorical inp_img transformer temperature top_k top_p options seed output w =
     (case transformer inp_img output of
        (predictions, attention_weights) \<Rightarrow>
          (case predictions of
             [] \<Rightarrow> (Inl InvalidArgumentError, w)
           | _ \<Rightarrow>
               (case top_k_logits (truediv tf (last predictions) temperature) top_k of
                  Inl e \<Rightarrow> (Inl e, w)
                | Inr predictions \<Rightarrow>
                    (case top_p_logits tf predictions top_p of
                       Inl e \<Rightarrow> (Inl e, w)
                     | Inr predictions \<Rightarrow>
                         if options = ''Greedy'' then
                           (case tf_argmax predictions of
                              Inl e \<Rightarrow> (Inl e, w)
                            | Inr predicted_id \<Rightarrow> (Inr (predicted_id, attention_weights), w))
                         else if options = ''Sampling'' then
                           (case categorical (rng w) predictions seed of
                              (predicted_id, g) \<Rightarrow>
                                (Inr (predicted_id, attention_weights), w\<lparr>rng := g\<rparr>))
                         else (Inl UnboundLocalError, emit (Write ''SHOULD NOT HAPPEN'') w)))))"

text \<open>
  The \<^verbatim>\<open>for i in range(MAX_LENGTH)\<close> loop, by recursion over the indices still to run.
  \<open>bound\<close> holds \<^verbatim>\<open>attention_weights\<close> and \<^verbatim>\<open>i\<close> as the last completed pass left them:
  \<open>None\<close> before the first pass, when reading them after the loop is an error.
\<close>

fun evaluate_loop ::
  "tensorflow \<Rightarrow> 'g categorical \<Rightarrow> 'img \<Rightarrow> ('img, 'att) transformer \<Rightarrow> real \<Rightarrow> int \<Rightarrow> real \<Rightarrow> string \<Rightarrow> int \<Rightarrow> int \<Rightarrow>
     nat list \<Rightarrow> int list \<Rightarrow> ('att \<times> nat) option \<Rightarrow> 'g world \<Rightarrow>
     (error + int list \<times> 'att \<times> int) \<times> 'g world" where
  "evaluate_loop tf categorical inp_img transformer temperature top_k top_p options seed MAX_LENGTH
     [] output bound w =
     (case bound of
        None \<Rightarrow> (Inl UnboundLocalError, emit Empty w)
      | Some (attention_weights, i) \<Rightarrow>
          (Inr (drop 1 output, attention_weights, int i), emit Empty w))"
| "evaluate_loop tf categorical inp_img transformer temperature top_k top_p options seed MAX_LENGTH
     (i # rest) output bound w =
     (case decode_step tf categorical inp_img transformer temperature top_k top_p options seed output
             (emit (Progress (real i / real_of_int MAX_LENGTH)) w) of
        (Inl e, w') \<Rightarrow> (Inl e, w')
      | (Inr (predicted_id, attention_weights), w') \<Rightarrow>
          if predicted_id = 2 then (Inr (drop 1 output, attention_weights, int i), emit Empty w')
          else evaluate_loop tf categorical inp_img transformer temperature top_k top_p options seed
                 MAX_LENGTH rest (output @ [predicted_id]) (Some (attention_weights, i)) w')"

text \<open>
  \<^verbatim>\<open>evaluate\<close> (lines 92-132). The float kernels and the sampler are the two parameters
  the source does not name.
\<close>

definition evaluate ::
  "tensorflow \<Rightarrow> 'g categorical \<Rightarrow> 'img \<Rightarrow> tokenizer \<Rightarrow> ('img, 'att) transformer \<Rightarrow> real \<Rightarrow> int \<Rightarrow> real \<Rightarrow> string \<Rightarrow>
     int \<Rightarrow> int \<Rightarrow> 'g world \<Rightarrow> (error + int list \<times> 'att \<times> int) \<times> 'g world" where
  "evaluate tf categorical inp_img tokenizer transformer temperature top_k top_p options seed MAX_LENGTH w =
     (case token_to_id tokenizer ''<s>'' of
        None \<Rightarrow> (Inl ValueError, w)
      | Some start \<Rightarrow>
          evaluate_loop tf categorical inp_img transformer temperature top_k top_p options seed MAX_LENGTH
            [0..<nat MAX_LENGTH] [start] None (emit (New_progress 0) w))"

text \<open>The decoding steps a page records: one \<^verbatim>\<open>my_bar.progress\<close> call opens each pass.\<close>

fun is_progress :: "event \<Rightarrow> bool" where
  "is_progress (Progress r) = True"
| "is_progress e = False"

definition steps_executed :: "event list \<Rightarrow> nat" where
  "steps_executed evs = length (filter is_progress evs)"

section \<open>The sidebar and main\<close>






text \<open>What the five sidebar widgets (lines 144-148) returned.\<close>

record sidebar =
  sb_options :: string
  sb_seed :: int
  sb_temperature :: real
  sb_top_k :: int
  sb_top_p :: real


text \<open>\<^verbatim>\<open>tf.nn.sigmoid\<close> on the validator's single output.\<close>

definition tf_nn_sigmoid :: "real \<Rightarrow> real" where
  "tf_nn_sigmoid x = 1 / (1 + exp (- x))"

text \<open>
  The plotting loop of lines 197-204 over the indices \<^verbatim>\<open>range(tokens - 1)\<close>: one sub-plot
  at grid position \<^verbatim>\<open>i + 1\<close>, titled with the decoded \<^verbatim>\<open>result[i]\<close>. The attention map is
  a tensor of the external model and stays opaque: averaging, scaling and reading its
  rows (lines 191-193, 198-199) leave no event and are taken not to fail.
\<close>

fun attention_plots ::
  "tokenizer \<Rightarrow> int list \<Rightarrow> nat list \<Rightarrow> 'g world \<Rightarrow> (error + unit) \<times> 'g world" where
  "attention_plots tok result [] w = (Inr (), w)"
| "attention_plots tok result (i # rest) w =
     (if i < length result
      then attention_plots tok result rest (emit (Subplot (i + 1) (decode tok [result ! i])) w)
      else (Inl IndexError, w))"

text \<open>
  \<^verbatim>\<open>main\<close> (lines 135-209). \<open>loaded\<close> is what \<^verbatim>\<open>load_model()\<close> returned,
  \<open>read_image\<close> stands for lines 156-162 (reading, converting and resizing the upload).
  \<^verbatim>\<open>evaluate\<close> runs with its default \<^verbatim>\<open>MAX_LENGTH=128\<close>.
\<close>

definition main ::
  "tensorflow \<Rightarrow> 'g categorical \<Rightarrow> ('img, 'att) transformer \<times> tokenizer \<Rightarrow> ('img \<Rightarrow> real) \<Rightarrow> ('file \<Rightarrow> error + 'img) \<Rightarrow>
     sidebar \<Rightarrow> 'file option \<Rightarrow> 'g world \<Rightarrow> (error + unit) \<times> 'g world" where
  "main tf categorical loaded cxr_validator_model read_image sb uploaded_file w0 =
     (case loaded of
        (transformer, tok) \<Rightarrow>
          (let w = emit (Sidebar_title ''Configuration'')
                     (emit (Text ''Made with Streamlit and Attention RNN'')
                        (emit (Title ''Chest X-ray AI Diagnosis Demo'') w0))
           in case uploaded_file of
                None \<Rightarrow> (Inr (), w)
              | Some file \<Rightarrow>
                  (case read_image file of
                     Inl e \<Rightarrow> (Inl e, w)
                   | Inr img_array \<Rightarrow>
                       (let w = emit (Image ''Uploaded Image'') w;
                            valid = tf_nn_sigmoid (cxr_validator_model img_array)
                        in if valid < 1 / 10
                           then (Inr (), emit (Info ''Image is not a Chest X-ray'') w)
                           else
                             (case evaluate tf categorical img_array tok transformer
                                     (sb_temperature sb) (sb_top_k sb) (sb_top_p sb)
                                     (sb_options sb) (sb_seed sb) 128
                                     (emit (Spinner ''Generating report... Do not refresh or close window.'')
                                        (emit Log_running_analysis w)) of
                                (Inl e, w) \<Rightarrow> (Inl e, w)
                              | (Inr (result, attention_weights, tokens), w) \<Rightarrow>
                                  (let predicted_sentence = decode tok result;
                                       w = emit (Subheader ''Attention Plot:'')
                                             (emit (Write predicted_sentence)
                                                (emit (Subheader ''Generated Report:'') w))
                                   in case attention_plots tok result [0..<nat (tokens - 1)] w of
                                        (Inl e, w) \<Rightarrow> (Inl e, w)
                                      | (Inr u, w) \<Rightarrow>
                                          (Inr (), emit (Button ''Regenerate Report'')
                                                     (emit Pyplot w))))))))"

section \<open>Notions the properties are stated with\<close>

text \<open>The logits of a filtered row that were not overwritten with the sentinel.\<close>

definition unmasked :: "real list \<Rightarrow> nat" where
  "unmasked out = length (filter (\<lambda>x. x \<noteq> sentinel) out)"

text \<open>The sub-plots a page shows.\<close>

fun is_subplot :: "event \<Rightarrow> bool" where
  "is_subplot (Subplot n t) = True"
| "is_subplot e = False"

definition subplots :: "event list \<Rightarrow> nat" where
  "subplots evs = length (filter is_subplot evs)"

section \<open>A small model for concrete runs\<close>

text \<open>
  A vocabulary of four ids with start token 0 and stop token 2. \<open>toy_transformer\<close> scores
  id 3 highest while fewer than two tokens were generated and the stop token after that;
  \<open>toy_babbler\<close> always scores id 3 highest; \<open>toy_categorical\<close> always draws id 3 and
  counts its draws; \<open>toy_first_then_stop\<close> draws id 3 in the generator's first state and
  the stop token in every later one, whatever the seed. The image is \<open>()\<close>, the attention
  weights are the length of the token tensor. The float kernels of these runs are
  \<open>exact_arithmetic\<close>.

  \<open>float32_sums_of_520\<close> are the cumulative sums that 32-bit float arithmetic gives for the
  softmax of the row \<open>[5, 2, 0]\<close>: 0.94649917, 0.9936226 and 1.0000001 (the floats
  \<open>15879621 / 2^24\<close>, \<open>16670221 / 2^24\<close> and \<open>1 + 2^-23\<close>), where the exact sums end at 1.
  \<open>float32_at_520\<close> is a kernel record whose cumulative sum returns them.
\<close>

definition float32_sums_of_520 :: "real list" where
  "float32_sums_of_520 = [15879621 / 16777216, 16670221 / 16777216, 8388609 / 8388608]"

definition float32_at_520 :: tensorflow where
  "float32_at_520 = exact_arithmetic\<lparr>cumsum := (\<lambda>xs. float32_sums_of_520)\<rparr>"

definition toy_tokenizer :: tokenizer where
  "toy_tokenizer =
     \<lparr>token_to_id = (\<lambda>s. if s = ''<s>'' then Some 0 else None),
      decode = (\<lambda>ids. concat (map (\<lambda>t. if t = 3 then ''lungs '' else ''? '') ids)),
      get_vocab_size = 4\<rparr>"

definition toy_transformer :: "(unit, nat) transformer" where
  "toy_transformer img outp =
     ([if length outp < 3 then [0, 0, 0, 1] else [0, 0, 1, 0]], length outp)"

definition toy_babbler :: "(unit, nat) transformer" where
  "toy_babbler img outp = ([[0, 0, 0, 1]], length outp)"

definition toy_categorical :: "nat categorical" where
  "toy_categorical g logits seed = (3, Suc g)"

definition toy_first_then_stop :: "nat categorical" where
  "toy_first_then_stop g logits seed = (if g = 0 then 3 else 2, Suc g)"

definition fresh :: "nat world" where
  "fresh = \<lparr>rng = 0, page = []\<rparr>"

section \<open>Facts about sorting and masking\<close>

lemma length_tf_sort_descending: "length (tf_sort_descending xs) = length xs"
  by (simp add: tf_sort_descending_def)

lemma set_tf_sort_descending: "set (tf_sort_descending xs) = set xs"
  by (simp add: tf_sort_descending_def)

lemma mset_tf_sort_descending: "mset (tf_sort_descending xs) = mset xs"
  by (simp add: tf_sort_descending_def)

lemma length_tf_where_below: "length (tf_where_below xs b) = length xs"
  by (simp add: tf_where_below_def)

lemma nth_tf_where_below:
  "i < length xs \<Longrightarrow> tf_where_below xs b ! i = (if xs ! i < b then sentinel else xs ! i)"
  by (simp add: tf_where_below_def)

lemma sorted_desc: "sorted_wrt (\<lambda>x y. y \<le> x) (tf_sort_descending xs)"
  by (simp add: tf_sort_descending_def sorted_wrt_rev)

lemma desc_nth_mono:
  "i \<le> j \<Longrightarrow> j < length xs \<Longrightarrow> tf_sort_descending xs ! j \<le> tf_sort_descending xs ! i"
  using sorted_desc [of xs]
  by (cases "i = j") (auto simp: sorted_wrt_iff_nth_less length_tf_sort_descending)

lemma length_filter_desc:
  "length (filter P (tf_sort_descending xs)) = length (filter P xs)"
proof -
  have "mset (filter P (tf_sort_descending xs)) = mset (filter P xs)"
    by (simp add: mset_tf_sort_descending)
  then show ?thesis by (metis size_mset)
qed

lemma inner_top_k_ok:
  assumes "1 \<le> k" "k \<le> int (length logits)"
  shows "inner_top_k logits k = Inr (tf_where_below logits (tf_sort_descending logits ! (nat k - 1)))"
proof -
  let ?s = "tf_sort_descending logits"
  have len: "length (take (nat k) ?s) = nat k"
    using assms by (simp add: length_tf_sort_descending)
  then have ne: "take (nat k) ?s \<noteq> []" using assms by auto
  have "last (take (nat k) ?s) = ?s ! (nat k - 1)"
    using ne len assms by (simp add: last_conv_nth length_tf_sort_descending)
  moreover from ne obtain v vs where eq: "take (nat k) ?s = v # vs"
    by (cases "take (nat k) ?s") auto
  have "inner_top_k logits k = Inr (tf_where_below logits (last (take (nat k) ?s)))"
    using assms by (simp add: inner_top_k_def tf_nn_top_k_def eq)
  ultimately show ?thesis by simp
qed

lemma kept_at_least_k:
  assumes "1 \<le> k" "k \<le> length xs"
  shows "k \<le> length (filter (\<lambda>x. \<not> x < tf_sort_descending xs ! (k - 1)) xs)"
proof -
  let ?s = "tf_sort_descending xs"
  let ?P = "\<lambda>x. \<not> x < ?s ! (k - 1)"
  have all: "\<forall>x \<in> set (take k ?s). ?P x"
  proof
    fix x assume "x \<in> set (take k ?s)"
    then obtain j where j: "j < k" "x = ?s ! j"
      using assms by (auto simp: in_set_conv_nth length_tf_sort_descending)
    then have "?s ! (k - 1) \<le> ?s ! j"
      using assms by (intro desc_nth_mono) auto
    with j show "?P x" by simp
  qed
  have "length (filter ?P ?s) = length (filter ?P (take k ?s)) + length (filter ?P (drop k ?s))"
    by (metis append_take_drop_id filter_append length_append)
  moreover have "filter ?P (take k ?s) = take k ?s" using all by (simp add: filter_id_conv)
  moreover have "length (take k ?s) = k" using assms by (simp add: length_tf_sort_descending)
  ultimately have "k \<le> length (filter ?P ?s)" by simp
  then show ?thesis by (simp add: length_filter_desc)
qed

lemma above_less_k:
  assumes "1 \<le> k" "k \<le> length xs"
  shows "length (filter (\<lambda>x. tf_sort_descending xs ! (k - 1) < x) xs) < k"
proof -
  let ?s = "tf_sort_descending xs"
  let ?Q = "\<lambda>x. ?s ! (k - 1) < x"
  have none: "\<forall>x \<in> set (drop (k - 1) ?s). \<not> ?Q x"
  proof
    fix x assume "x \<in> set (drop (k - 1) ?s)"
    then obtain j where j: "k - 1 \<le> j" "j < length xs" "x = ?s ! j"
      by (auto simp: in_set_conv_nth length_tf_sort_descending)
        (metis add.commute le_add2 less_diff_conv)
    then have "?s ! j \<le> ?s ! (k - 1)" by (intro desc_nth_mono) auto
    with j show "\<not> ?Q x" by simp
  qed
  have "length (filter ?Q ?s) = length (filter ?Q (take (k - 1) ?s)) + length (filter ?Q (drop (k - 1) ?s))"
    by (metis append_take_drop_id filter_append length_append)
  moreover have "filter ?Q (drop (k - 1) ?s) = []" using none by (simp add: filter_empty_conv)
  moreover have "length (filter ?Q (take (k - 1) ?s)) \<le> k - 1"
    by (rule order_trans [OF length_filter_le]) simp
  ultimately have "length (filter ?Q ?s) < k" using assms by simp
  then show ?thesis by (simp add: length_filter_desc)
qed

lemma kept_exactly_k:
  assumes "1 \<le> k" "k \<le> length xs" "distinct xs"
  shows "length (filter (\<lambda>x. \<not> x < tf_sort_descending xs ! (k - 1)) xs) = k"
proof -
  let ?s = "tf_sort_descending xs"
  let ?P = "\<lambda>x. \<not> x < ?s ! (k - 1)"
  have ds: "distinct ?s" using assms(3) by (simp add: tf_sort_descending_def)
  have none: "\<forall>x \<in> set (drop k ?s). \<not> ?P x"
  proof
    fix x assume "x \<in> set (drop k ?s)"
    then obtain j where j: "k \<le> j" "j < length xs" "x = ?s ! j"
      by (auto simp: in_set_conv_nth length_tf_sort_descending)
        (metis add.commute le_add2 less_diff_conv)
    then have le: "?s ! j \<le> ?s ! (k - 1)" by (intro desc_nth_mono) auto
    have "?s ! j \<noteq> ?s ! (k - 1)"
      using ds j assms by (simp add: nth_eq_iff_index_eq length_tf_sort_descending)
    with le j show "\<not> ?P x" by simp
  qed
  have all: "\<forall>x \<in> set (take k ?s). ?P x"
  proof
    fix x assume "x \<in> set (take k ?s)"
    then obtain j where j: "j < k" "x = ?s ! j"
      using assms by (auto simp: in_set_conv_nth length_tf_sort_descending)
    then have "?s ! (k - 1) \<le> ?s ! j"
      using assms by (intro desc_nth_mono) auto
    with j show "?P x" by simp
  qed
  have "length (filter ?P ?s) = length (filter ?P (take k ?s)) + length (filter ?P (drop k ?s))"
    by (metis append_take_drop_id filter_append length_append)
  moreover have "filter ?P (take k ?s) = take k ?s" using all by (simp add: filter_id_conv)
  moreover have "filter ?P (drop k ?s) = []" using none by (simp add: filter_empty_conv)
  moreover have "length (take k ?s) = k" using assms by (simp add: length_tf_sort_descending)
  ultimately have "length (filter ?P ?s) = k" by simp
  then show ?thesis by (simp add: length_filter_desc)
qed

lemma length_filter_mono:
  "(\<And>x. x \<in> set xs \<Longrightarrow> P x \<Longrightarrow> Q x) \<Longrightarrow> length (filter P xs) \<le> length (filter Q xs)"
  by (induction xs) auto

lemma unmasked_where_below:
  "unmasked (tf_where_below xs b) \<le> length (filter (\<lambda>x. \<not> x < b) xs)"
  unfolding unmasked_def tf_where_below_def filter_map length_map
  by (rule length_filter_mono) (auto split: if_splits)

lemma top_k_logits_ok:
  assumes "1 \<le> k" "k \<le> int (length logits)"
  shows "top_k_logits logits k = Inr (tf_where_below logits (tf_sort_descending logits ! (nat k - 1)))"
  using assms inner_top_k_ok [OF assms] by (simp add: top_k_logits_def)

lemma top_k_logits_Inr:
  assumes "top_k_logits logits k = Inr out" "k \<noteq> 0"
  shows "1 \<le> k \<and> k \<le> int (length logits)"
  using assms
  by (auto simp: top_k_logits_def inner_top_k_def tf_nn_top_k_def split: if_splits)

lemma top_p_logits_Inr:
  assumes "top_p_logits tf logits p = Inr out"
  shows "\<exists>b \<in> set logits. out = tf_where_below logits b"
proof -
  let ?s = "tf_sort_descending logits"
  define i where "i = max (sum_list (map (\<lambda>c. if c \<le> p then 1 else 0)
      (cumsum tf (nn_softmax tf ?s))) - 1) (0 :: int)"
  have "top_p_logits tf logits p =
      (case tf_gather_nd ?s i of Inl e \<Rightarrow> Inl e | Inr m \<Rightarrow> Inr (tf_where_below logits m))"
    by (simp add: top_p_logits_def i_def Let_def)
  with assms have i: "0 \<le> i" "i < int (length ?s)"
    and out: "out = tf_where_below logits (?s ! nat i)"
    by (auto simp: tf_gather_nd_def split: if_splits)
  from i have "?s ! nat i \<in> set ?s" by (intro nth_mem) auto
  then have "?s ! nat i \<in> set logits" by (simp add: set_tf_sort_descending)
  with out show ?thesis by blast
qed

section \<open>Facts about softmax and cumulative sums\<close>

lemma sum_exp_pos:
  assumes "xs \<noteq> []"
  shows "0 < sum_list (map exp (xs :: real list))"
proof (cases xs)
  case Nil
  with assms show ?thesis by simp
next
  case (Cons a as)
  have "0 \<le> sum_list (map exp as)" by (rule sum_list_nonneg) auto
  with Cons show ?thesis by (simp add: add_pos_nonneg)
qed

lemma length_exact_softmax: "length (exact_softmax xs) = length xs"
  by (simp add: exact_softmax_def)

lemma exact_softmax_nonneg: "x \<in> set (exact_softmax xs) \<Longrightarrow> 0 \<le> x"
  by (auto simp: exact_softmax_def intro!: divide_nonneg_nonneg sum_list_nonneg)

lemma sum_list_exact_softmax: "xs \<noteq> [] \<Longrightarrow> sum_list (exact_softmax xs) = 1"
proof -
  assume ne: "xs \<noteq> []"
  have "sum_list (map (\<lambda>x. exp x / c) xs) = sum_list (map exp xs) / c" for c :: real
    by (induction xs) (auto simp: add_divide_distrib)
  with sum_exp_pos [OF ne] show ?thesis by (simp add: exact_softmax_def)
qed

lemma length_cumsum_from: "length (cumsum_from acc xs) = length xs"
  by (induction xs arbitrary: acc) auto

lemma nth_cumsum_from:
  "j < length xs \<Longrightarrow> cumsum_from acc xs ! j = acc + sum_list (take (Suc j) xs)"
proof (induction xs arbitrary: acc j)
  case Nil then show ?case by simp
next
  case (Cons x xs)
  then show ?case by (cases j) auto
qed

lemma length_exact_cumsum: "length (exact_cumsum xs) = length xs"
  by (simp add: exact_cumsum_def length_cumsum_from)

lemma nth_exact_cumsum: "j < length xs \<Longrightarrow> exact_cumsum xs ! j = sum_list (take (Suc j) xs)"
  by (simp add: exact_cumsum_def nth_cumsum_from)

lemma sum_list_take_mono:
  assumes "\<forall>x \<in> set xs. 0 \<le> (x :: real)" "i \<le> j"
  shows "sum_list (take i xs) \<le> sum_list (take j xs)"
proof -
  have "take j xs = take i xs @ take (j - i) (drop i xs)"
    using assms(2) by (metis le_add_diff_inverse take_add)
  moreover have "0 \<le> sum_list (take (j - i) (drop i xs))"
    using assms(1) by (intro sum_list_nonneg) (auto dest: in_set_takeD in_set_dropD)
  ultimately show ?thesis by simp
qed

lemma sum_list_take_le_total:
  assumes "\<forall>x \<in> set xs. 0 \<le> (x :: real)"
  shows "sum_list (take i xs) \<le> sum_list xs"
  using sum_list_take_mono [OF assms, of i "max i (length xs)"] by simp

lemma count_le_prefix:
  fixes cs :: "real list"
  assumes "sorted cs"
  shows "\<exists>n\<le>length cs. sum_list (map (\<lambda>c. if c \<le> p then 1 else 0) cs) = int n \<and>
           (\<forall>j<length cs. cs ! j \<le> p \<longleftrightarrow> j < n)"
  using assms
proof (induction cs)
  case Nil
  then show ?case by simp
next
  case (Cons c cs)
  then obtain n where n: "n \<le> length cs"
    "sum_list (map (\<lambda>c. if c \<le> p then 1 else 0) cs) = int n"
    "\<forall>j<length cs. cs ! j \<le> p \<longleftrightarrow> j < n"
    by auto
  show ?case
  proof (cases "c \<le> p")
    case True
    have "\<forall>j<length (c # cs). (c # cs) ! j \<le> p \<longleftrightarrow> j < Suc n"
      using n(3) True by (auto simp: nth_Cons split: nat.splits)
    with n True show ?thesis by (intro exI [of _ "Suc n"]) simp
  next
    case False
    have above: "\<forall>x \<in> set cs. \<not> x \<le> p" using Cons.prems False by auto
    have "n = 0"
    proof (rule ccontr)
      assume "n \<noteq> 0"
      with n(1) have "0 < length cs" by auto
      with n(3) \<open>n \<noteq> 0\<close> have "cs ! 0 \<le> p" by simp
      with above \<open>0 < length cs\<close> show False using nth_mem by blast
    qed
    have "\<forall>j<length (c # cs). (c # cs) ! j \<le> p \<longleftrightarrow> j < 0"
      using above False by (auto simp: nth_Cons split: nat.splits)
    with n False \<open>n = 0\<close> show ?thesis by (intro exI [of _ 0]) simp
  qed
qed

lemma sorted_exact_cumsum:
  assumes "\<forall>x \<in> set xs. 0 \<le> x"
  shows "sorted (exact_cumsum xs)"
  unfolding sorted_iff_nth_mono
proof (intro allI impI)
  fix i j assume "i \<le> j" "j < length (exact_cumsum xs)"
  then show "exact_cumsum xs ! i \<le> exact_cumsum xs ! j"
    using sum_list_take_mono [OF assms, of "Suc i" "Suc j"]
    by (simp add: length_exact_cumsum nth_exact_cumsum)
qed

lemma count_le_filter:
  "sum_list (map (\<lambda>c. if c \<le> p then 1 else 0) cs) = int (length (filter (\<lambda>c. c \<le> (p :: real)) cs))"
  by (induction cs) auto

lemma sorted_filter_prefix:
  fixes cs :: "real list"
  assumes "sorted cs" "j < length cs"
  shows "cs ! j \<le> p \<longleftrightarrow> j < length (filter (\<lambda>c. c \<le> p) cs)"
proof -
  from count_le_prefix [OF assms(1), of p] obtain n where
    n: "sum_list (map (\<lambda>c. if c \<le> p then 1 else 0) cs) = int n"
    "\<forall>j<length cs. cs ! j \<le> p \<longleftrightarrow> j < n" by blast
  from n(1) have "n = length (filter (\<lambda>c. c \<le> p) cs)" by (simp add: count_le_filter)
  with n(2) assms(2) show ?thesis by simp
qed

lemma desc_last_is_least:
  assumes "x \<in> set logits"
  shows "\<not> x < tf_sort_descending logits ! (length logits - 1)"
proof -
  from assms obtain j where j: "j < length logits" "x = tf_sort_descending logits ! j"
    by (metis in_set_conv_nth length_tf_sort_descending set_tf_sort_descending)
  then have "tf_sort_descending logits ! (length logits - 1) \<le> tf_sort_descending logits ! j"
    by (intro desc_nth_mono) auto
  with j show ?thesis by simp
qed

lemma top_p_logits_boundary:
  assumes "logits \<noteq> []"
    and "length (cumsum tf (nn_softmax tf (tf_sort_descending logits))) = length logits"
  shows "top_p_logits tf logits p =
    Inr (tf_where_below logits (tf_sort_descending logits !
      (length (filter (\<lambda>c. c \<le> p) (cumsum tf (nn_softmax tf (tf_sort_descending logits)))) - 1)))"
proof -
  let ?s = "tf_sort_descending logits"
  let ?cs = "cumsum tf (nn_softmax tf ?s)"
  let ?n = "length (filter (\<lambda>c. c \<le> p) ?cs)"
  have le: "?n \<le> length logits"
    using length_filter_le [of "\<lambda>c. c \<le> p" ?cs] assms(2) by simp
  have idx: "nat (max (int ?n - 1) 0) = ?n - 1" by auto
  have rng: "max (int ?n - 1) 0 < int (length ?s)"
    using le assms(1) by (auto simp: length_tf_sort_descending)
  show ?thesis
    using rng idx by (simp add: top_p_logits_def Let_def count_le_filter tf_gather_nd_def)
qed

lemma top_p_logits_all_within:
  assumes "logits \<noteq> []"
    and "length (cumsum tf (nn_softmax tf (tf_sort_descending logits))) = length logits"
    and "\<forall>c \<in> set (cumsum tf (nn_softmax tf (tf_sort_descending logits))). c \<le> p"
  shows "top_p_logits tf logits p = Inr logits"
proof -
  let ?cs = "cumsum tf (nn_softmax tf (tf_sort_descending logits))"
  have "filter (\<lambda>c. c \<le> p) ?cs = ?cs" using assms(3) by (simp add: filter_id_conv)
  then have n: "length (filter (\<lambda>c. c \<le> p) ?cs) = length logits" using assms(2) by simp
  have "tf_where_below logits (tf_sort_descending logits ! (length logits - 1)) = logits"
    unfolding tf_where_below_def using desc_last_is_least [of _ logits]
    by (intro map_idI) auto
  with top_p_logits_boundary [OF assms(1,2), of p] n show ?thesis by simp
qed

lemma exact_cumsum_softmax_le_one:
  assumes "xs \<noteq> []" "c \<in> set (exact_cumsum (exact_softmax xs))"
  shows "c \<le> 1"
proof -
  let ?probs = "exact_softmax xs"
  have nonneg: "\<forall>x \<in> set ?probs. 0 \<le> x" by (auto intro: exact_softmax_nonneg)
  from assms(2) obtain j where j: "j < length ?probs" "c = exact_cumsum ?probs ! j"
    by (auto simp: in_set_conv_nth length_exact_cumsum)
  then have "c = sum_list (take (Suc j) ?probs)" by (simp add: nth_exact_cumsum)
  with sum_list_take_le_total [OF nonneg, of "Suc j"] sum_list_exact_softmax [OF assms(1)]
  show ?thesis by simp
qed

lemma top_p_logits_one:
  assumes "logits \<noteq> []"
  shows "top_p_logits exact_arithmetic logits 1 = Inr logits"
proof -
  have ne: "tf_sort_descending logits \<noteq> []"
    using assms by (metis length_tf_sort_descending length_0_conv)
  have len: "length (cumsum exact_arithmetic (nn_softmax exact_arithmetic (tf_sort_descending logits)))
      = length logits"
    by (simp add: exact_arithmetic_def length_exact_cumsum length_exact_softmax
        length_tf_sort_descending)
  have "\<forall>c \<in> set (cumsum exact_arithmetic (nn_softmax exact_arithmetic (tf_sort_descending logits))).
      c \<le> 1"
    using exact_cumsum_softmax_le_one [OF ne] by (simp add: exact_arithmetic_def)
  with top_p_logits_all_within [OF assms len] show ?thesis by blast
qed

section \<open>Facts about the decoding loop\<close>

lemma page_emit: "page (emit e w) = page w @ [e]"
  by (simp add: emit_def)

lemma steps_emit_Progress: "steps_executed (page (emit (Progress r) w)) = Suc (steps_executed (page w))"
  by (simp add: page_emit steps_executed_def)

lemma steps_emit_other: "\<not> is_progress e \<Longrightarrow> steps_executed (page (emit e w)) = steps_executed (page w)"
  by (simp add: page_emit steps_executed_def)

lemma decode_step_page:
  assumes "decode_step tf categorical inp_img transformer temperature top_k top_p options seed outp w = (r, w')"
  shows "page w' = page w \<or> page w' = page w @ [Write ''SHOULD NOT HAPPEN'']"
  using assms
  by (auto simp: decode_step_def page_emit split: prod.splits list.splits if_splits sum.splits)

lemma decode_step_steps:
  assumes "decode_step tf categorical inp_img transformer temperature top_k top_p options seed outp w = (r, w')"
  shows "steps_executed (page w') = steps_executed (page w)"
  using decode_step_page [OF assms] by (auto simp: steps_executed_def)

lemma evaluate_loop_steps_le:
  "evaluate_loop tf categorical inp_img transformer temperature top_k top_p options seed MAX_LENGTH
     idxs outp bnd w = (res, w') \<Longrightarrow>
   steps_executed (page w') \<le> steps_executed (page w) + length idxs"
proof (induction idxs arbitrary: outp bnd w)
  case Nil
  then show ?case by (auto simp: steps_emit_other split: option.splits)
next
  case (Cons i rest)
  obtain r w1 where d: "decode_step tf categorical inp_img transformer temperature top_k top_p options seed outp
             (emit (Progress (real i / real_of_int MAX_LENGTH)) w) = (r, w1)"
    by (cases "decode_step tf categorical inp_img transformer temperature top_k top_p options seed outp
             (emit (Progress (real i / real_of_int MAX_LENGTH)) w)") auto
  have s1: "steps_executed (page w1) = Suc (steps_executed (page w))"
    using decode_step_steps [OF d] by (simp add: steps_emit_Progress)
  show ?case
  proof (cases r)
    case (Inl e)
    with Cons.prems d s1 show ?thesis by simp
  next
    case (Inr x)
    obtain t att where x: "x = (t, att)" by (cases x) auto
    show ?thesis
    proof (cases "t = 2")
      case True
      with Cons.prems d s1 Inr x show ?thesis by (auto simp: steps_emit_other)
    next
      case False
      with Cons.prems d Inr x have
        "evaluate_loop tf categorical inp_img transformer temperature top_k top_p options seed MAX_LENGTH
           rest (outp @ [t]) (Some (att, i)) w1 = (res, w')" by simp
      from Cons.IH [OF this] s1 show ?thesis by simp
    qed
  qed
qed

lemma evaluate_loop_result:
  "evaluate_loop tf categorical inp_img transformer temperature top_k top_p options seed MAX_LENGTH
     idxs outp bnd w = (Inr (result, att, i), w') \<Longrightarrow> outp \<noteq> [] \<Longrightarrow>
   \<exists>n gen. n \<le> length idxs \<and> steps_executed (page w') = steps_executed (page w) + n \<and>
     result = drop 1 outp @ gen \<and> 2 \<notin> set gen \<and>
     (length gen = n \<or> Suc (length gen) = n) \<and> (length gen = n \<longrightarrow> n = length idxs) \<and>
     (if n = 0 then \<exists>j. bnd = Some (att, j) \<and> i = int j else i = int (idxs ! (n - 1)))"
proof (induction idxs arbitrary: outp bnd w)
  case Nil
  then show ?case by (auto simp: steps_emit_other split: option.splits)
next
  case (Cons i0 rest)
  obtain r w1 where d: "decode_step tf categorical inp_img transformer temperature top_k top_p options seed outp
             (emit (Progress (real i0 / real_of_int MAX_LENGTH)) w) = (r, w1)"
    by (cases "decode_step tf categorical inp_img transformer temperature top_k top_p options seed outp
             (emit (Progress (real i0 / real_of_int MAX_LENGTH)) w)") auto
  have s1: "steps_executed (page w1) = Suc (steps_executed (page w))"
    using decode_step_steps [OF d] by (simp add: steps_emit_Progress)
  show ?case
  proof (cases r)
    case (Inl e)
    with Cons.prems d show ?thesis by simp
  next
    case (Inr x)
    obtain t a where x: "x = (t, a)" by (cases x) auto
    show ?thesis
    proof (cases "t = 2")
      case True
      with Cons.prems d Inr x have e: "result = drop 1 outp" "att = a" "i = int i0" "w' = emit Empty w1"
        by auto
      have "steps_executed (page w') = steps_executed (page w) + 1"
        using e s1 by (simp add: steps_emit_other)
      with e show ?thesis
        by (intro exI [of _ 1] exI [of _ "[]"]) simp
    next
      case False
      with Cons.prems d Inr x have
        "evaluate_loop tf categorical inp_img transformer temperature top_k top_p options seed MAX_LENGTH
           rest (outp @ [t]) (Some (a, i0)) w1 = (Inr (result, att, i), w')" by simp
      from Cons.IH [OF this] obtain n gen where ih:
        "n \<le> length rest" "steps_executed (page w') = steps_executed (page w1) + n"
        "result = drop 1 (outp @ [t]) @ gen" "2 \<notin> set gen"
        "length gen = n \<or> Suc (length gen) = n" "length gen = n \<longrightarrow> n = length rest"
        "if n = 0 then \<exists>j. Some (a, i0) = Some (att, j) \<and> i = int j else i = int (rest ! (n - 1))"
        by auto
      have r: "result = drop 1 outp @ (t # gen)"
        using ih(3) Cons.prems(2) by (cases outp) auto
      have idx: "i = int ((i0 # rest) ! n)"
        using ih(7) by (cases n) (auto split: if_splits)
      show ?thesis
        using ih(1,2,4,5,6) r idx s1 False
        by (intro exI [of _ "Suc n"] exI [of _ "t # gen"]) auto
    qed
  qed
qed

lemma evaluate_result:
  assumes "evaluate tf categorical inp_img tokenizer transformer temperature top_k top_p options seed
     MAX_LENGTH w = (Inr (result, att, i), w')"
  shows "2 \<notin> set result \<and> steps_executed (page w') = steps_executed (page w) + nat (i + 1) \<and>
     0 \<le> i \<and> i < MAX_LENGTH \<and>
     (int (length result) = i \<or> int (length result) = i + 1) \<and>
     (int (length result) = i + 1 \<longrightarrow> i + 1 = MAX_LENGTH)"
proof -
  from assms obtain start where
    l: "evaluate_loop tf categorical inp_img transformer temperature top_k top_p options seed MAX_LENGTH
            [0..<nat MAX_LENGTH] [start] None (emit (New_progress 0) w) = (Inr (result, att, i), w')"
    by (auto simp: evaluate_def split: option.splits)
  from evaluate_loop_result [OF l] obtain n gen where g:
    "n \<le> nat MAX_LENGTH" "steps_executed (page w') = steps_executed (page w) + n"
    "result = gen" "2 \<notin> set gen" "length gen = n \<or> Suc (length gen) = n"
    "length gen = n \<longrightarrow> n = nat MAX_LENGTH"
    "if n = 0 then \<exists>j. None = Some (att, j) \<and> i = int j else i = int ([0..<nat MAX_LENGTH] ! (n - 1))"
    by (auto simp: steps_emit_other)
  from g(7) have n0: "n \<noteq> 0" by (auto split: if_splits)
  with g(7) g(1) have "i = int (n - 1)" by (auto split: if_splits)
  with n0 have i: "i = int n - 1" by auto
  have pos: "int n \<le> MAX_LENGTH" using g(1) n0 by linarith
  have 1: "2 \<notin> set result" using g(3,4) by simp
  have 2: "steps_executed (page w') = steps_executed (page w) + nat (i + 1)"
    using g(2) i by simp
  have 3: "0 \<le> i" "i < MAX_LENGTH" using i n0 pos by linarith+
  have 4: "int (length result) = i \<or> int (length result) = i + 1"
    using g(3,5) i by auto
  have 5: "int (length result) = i + 1 \<longrightarrow> i + 1 = MAX_LENGTH"
  proof
    assume "int (length result) = i + 1"
    with g(3) i have "length gen = n" by simp
    with g(6) have "n = nat MAX_LENGTH" by simp
    moreover have "0 < MAX_LENGTH" using pos n0 by linarith
    ultimately show "i + 1 = MAX_LENGTH" using i by simp
  qed
  from 1 2 3 4 5 show ?thesis by blast
qed





lemma decode_step_rng:
  assumes "rng w1 = rng w2"
  shows "fst (decode_step tf categorical inp_img transformer temperature top_k top_p options seed
            outp w1)
       = fst (decode_step tf categorical inp_img transformer temperature top_k top_p options seed
            outp w2) \<and>
     rng (snd (decode_step tf categorical inp_img transformer temperature top_k top_p options seed
            outp w1))
       = rng (snd (decode_step tf categorical inp_img transformer temperature top_k top_p options
            seed outp w2))"
  using assms
  by (auto simp: decode_step_def emit_def split: prod.splits list.splits sum.splits)

lemma evaluate_loop_rng:
  "rng w1 = rng w2 \<Longrightarrow>
   fst (evaluate_loop tf categorical inp_img transformer temperature top_k top_p options seed
          MAX_LENGTH idxs outp bnd w1)
     = fst (evaluate_loop tf categorical inp_img transformer temperature top_k top_p options seed
          MAX_LENGTH idxs outp bnd w2)"
proof (induction idxs arbitrary: outp bnd w1 w2)
  case Nil
  then show ?case by (simp split: option.splits)
next
  case (Cons i rest)
  let ?p = "Progress (real i / real_of_int MAX_LENGTH)"
  obtain r1 v1 where d1: "decode_step tf categorical inp_img transformer temperature top_k top_p
      options seed outp (emit ?p w1) = (r1, v1)"
    by (cases "decode_step tf categorical inp_img transformer temperature top_k top_p
      options seed outp (emit ?p w1)") auto
  obtain r2 v2 where d2: "decode_step tf categorical inp_img transformer temperature top_k top_p
      options seed outp (emit ?p w2) = (r2, v2)"
    by (cases "decode_step tf categorical inp_img transformer temperature top_k top_p
      options seed outp (emit ?p w2)") auto
  have "rng (emit ?p w1) = rng (emit ?p w2)" using Cons.prems by (simp add: emit_def)
  from decode_step_rng [OF this, of tf categorical inp_img transformer temperature top_k top_p
      options seed outp] d1 d2
  have same: "r1 = r2" "rng v1 = rng v2" by simp_all
  show ?case
  proof (cases r1)
    case (Inl e)
    with same have "r1 = Inl e" "r2 = Inl e" by simp_all
    with d1 d2 show ?thesis by simp
  next
    case (Inr x)
    obtain t a where x: "x = (t, a)" by (cases x) auto
    with Inr same have r: "r1 = Inr (t, a)" "r2 = Inr (t, a)" by simp_all
    show ?thesis
    proof (cases "t = 2")
      case True
      with d1 d2 r show ?thesis by simp
    next
      case False
      with d1 d2 r Cons.IH [OF same(2)] show ?thesis by simp
    qed
  qed
qed

lemma evaluate_rng:
  "rng w1 = rng w2 \<Longrightarrow>
   fst (evaluate tf categorical inp_img tok transformer temperature top_k top_p options seed
          MAX_LENGTH w1)
     = fst (evaluate tf categorical inp_img tok transformer temperature top_k top_p options seed
          MAX_LENGTH w2)"
  by (auto simp: evaluate_def emit_def split: option.splits intro!: evaluate_loop_rng)


lemma decode_step_page_ext:
  assumes "decode_step tf categorical inp_img transformer temperature top_k top_p options seed outp w = (r, w')"
  shows "\<exists>evs. page w' = page w @ evs \<and> set evs \<subseteq> {Write ''SHOULD NOT HAPPEN''}"
  using decode_step_page [OF assms] by auto

lemma evaluate_loop_page:
  "evaluate_loop tf categorical inp_img transformer temperature top_k top_p options seed MAX_LENGTH
     idxs outp bnd w = (res, w') \<Longrightarrow>
   \<exists>evs. page w' = page w @ evs \<and>
     set evs \<subseteq> range Progress \<union> {Empty, Write ''SHOULD NOT HAPPEN''}"
proof (induction idxs arbitrary: outp bnd w)
  case Nil
  then show ?case by (auto simp: page_emit split: option.splits)
next
  case (Cons i rest)
  let ?D = "range Progress \<union> {Empty, Write ''SHOULD NOT HAPPEN''}"
  obtain r w1 where d: "decode_step tf categorical inp_img transformer temperature top_k top_p options seed outp
             (emit (Progress (real i / real_of_int MAX_LENGTH)) w) = (r, w1)"
    by (cases "decode_step tf categorical inp_img transformer temperature top_k top_p options seed outp
             (emit (Progress (real i / real_of_int MAX_LENGTH)) w)") auto
  from decode_step_page_ext [OF d] obtain evs1 where
    "page w1 = page (emit (Progress (real i / real_of_int MAX_LENGTH)) w) @ evs1"
    "set evs1 \<subseteq> {Write ''SHOULD NOT HAPPEN''}" by blast
  then have p1: "page w1 = page w @ (Progress (real i / real_of_int MAX_LENGTH) # evs1)"
    and s1: "set (Progress (real i / real_of_int MAX_LENGTH) # evs1) \<subseteq> ?D"
    by (auto simp: page_emit)
  show ?case
  proof (cases r)
    case (Inl e)
    with Cons.prems d have "w' = w1" by simp
    with p1 s1 show ?thesis by blast
  next
    case (Inr x)
    obtain t a where x: "x = (t, a)" by (cases x) auto
    show ?thesis
    proof (cases "t = 2")
      case True
      with Cons.prems d Inr x have "w' = emit Empty w1" by simp
      with p1 have "page w' = page w @ (Progress (real i / real_of_int MAX_LENGTH) # evs1 @ [Empty])"
        by (simp add: page_emit)
      moreover have "set (Progress (real i / real_of_int MAX_LENGTH) # evs1 @ [Empty]) \<subseteq> ?D"
        using s1 by auto
      ultimately show ?thesis by blast
    next
      case False
      with Cons.prems d Inr x have
        "evaluate_loop tf categorical inp_img transformer temperature top_k top_p options seed MAX_LENGTH
           rest (outp @ [t]) (Some (a, i)) w1 = (res, w')" by simp
      from Cons.IH [OF this] obtain evs2 where
        e2: "page w' = page w1 @ evs2" "set evs2 \<subseteq> ?D" by blast
      from e2(1) p1 have "page w' = page w @ ((Progress (real i / real_of_int MAX_LENGTH) # evs1) @ evs2)"
        by simp
      moreover have "set ((Progress (real i / real_of_int MAX_LENGTH) # evs1) @ evs2) \<subseteq> ?D"
        using s1 e2(2) by auto
      ultimately show ?thesis by blast
    qed
  qed
qed

lemma evaluate_page:
  assumes "evaluate tf categorical inp_img tok transformer temperature top_k top_p options seed
     MAX_LENGTH w = (res, w')"
  shows "\<exists>evs. page w' = page w @ evs \<and>
     set evs \<subseteq> range Progress \<union> {Empty, Write ''SHOULD NOT HAPPEN'', New_progress 0}"
proof (cases "token_to_id tok ''<s>''")
  case None
  with assms have "page w' = page w @ []" by (simp add: evaluate_def)
  then show ?thesis by (intro exI [of _ "[]"]) simp
next
  case (Some start)
  with assms have "evaluate_loop tf categorical inp_img transformer temperature top_k top_p options seed
        MAX_LENGTH [0..<nat MAX_LENGTH] [start] None (emit (New_progress 0) w) = (res, w')"
    by (simp add: evaluate_def)
  from evaluate_loop_page [OF this] obtain evs where
    e: "page w' = page (emit (New_progress 0) w) @ evs"
    "set evs \<subseteq> range Progress \<union> {Empty, Write ''SHOULD NOT HAPPEN''}" by blast
  from e(1) have "page w' = page w @ (New_progress 0 # evs)" by (simp add: page_emit)
  moreover have "set (New_progress 0 # evs)
      \<subseteq> range Progress \<union> {Empty, Write ''SHOULD NOT HAPPEN'', New_progress 0}"
    using e(2) by auto
  ultimately show ?thesis by blast
qed

section \<open>Facts about main\<close>

lemma attention_plots_in_range:
  "\<forall>i \<in> set idxs. i < length result \<Longrightarrow>
   attention_plots tok result idxs w =
     (Inr (), w\<lparr>page := page w @ map (\<lambda>i. Subplot (i + 1) (decode tok [result ! i])) idxs\<rparr>)"
  by (induction idxs arbitrary: w) (auto simp: emit_def)

lemma attention_plots_events:
  "attention_plots tok result idxs w = (r, w') \<Longrightarrow>
   \<exists>evs. page w' = page w @ evs \<and> (\<forall>e \<in> set evs. is_subplot e)"
proof (induction idxs arbitrary: w)
  case Nil
  then show ?case by simp
next
  case (Cons i rest)
  show ?case
  proof (cases "i < length result")
    case True
    with Cons.prems have "attention_plots tok result rest
        (emit (Subplot (i + 1) (decode tok [result ! i])) w) = (r, w')" by simp
    from Cons.IH [OF this] obtain evs where
      "page w' = page w @ (Subplot (i + 1) (decode tok [result ! i]) # evs)"
      "\<forall>e \<in> set evs. is_subplot e"
      by (auto simp: page_emit)
    then show ?thesis by (intro exI [of _ "Subplot (i + 1) (decode tok [result ! i]) # evs"]) simp
  next
    case False
    with Cons.prems show ?thesis by simp
  qed
qed

lemma subplots_map_Subplot: "subplots (map (\<lambda>i. Subplot (f i) (h i)) idxs) = length idxs"
  by (induction idxs) (auto simp: subplots_def)

lemma subplots_append: "subplots (xs @ ys) = subplots xs + subplots ys"
  by (simp add: subplots_def)

lemma subplots_decoder_events:
  "set evs \<subseteq> range Progress \<union> {Empty, Write s, New_progress r} \<Longrightarrow> subplots evs = 0"
  by (induction evs) (auto simp: subplots_def)

lemma main_rejects:
  assumes "read_image file = Inr img" "tf_nn_sigmoid (cxr_validator_model img) < 1 / 10"
  shows "main tf categorical (transformer, tok) cxr_validator_model read_image sb (Some file)
      \<lparr>rng = g, page = []\<rparr>
    = (Inr (), \<lparr>rng = g, page = [Title ''Chest X-ray AI Diagnosis Demo'',
         Text ''Made with Streamlit and Attention RNN'', Sidebar_title ''Configuration'',
         Image ''Uploaded Image'', Info ''Image is not a Chest X-ray'']\<rparr>)"
  using assms by (simp add: main_def emit_def)

lemma main_accepts_Inl:
  assumes "read_image file = Inr img" "\<not> tf_nn_sigmoid (cxr_validator_model img) < 1 / 10"
    "evaluate tf categorical img tok transformer (sb_temperature sb) (sb_top_k sb)
              (sb_top_p sb) (sb_options sb) (sb_seed sb) 128
              \<lparr>rng = g, page = [Title ''Chest X-ray AI Diagnosis Demo'',
                 Text ''Made with Streamlit and Attention RNN'', Sidebar_title ''Configuration'',
                 Image ''Uploaded Image'', Log_running_analysis,
         Spinner ''Generating report... Do not refresh or close window.'']\<rparr> = (Inl e, w1)"
  shows "main tf categorical (transformer, tok) cxr_validator_model read_image sb (Some file)
      \<lparr>rng = g, page = []\<rparr> = (Inl e, w1)"
  using assms by (simp add: main_def emit_def)

lemma main_accepts_Inr:
  assumes "read_image file = Inr img" "\<not> tf_nn_sigmoid (cxr_validator_model img) < 1 / 10"
    "evaluate tf categorical img tok transformer (sb_temperature sb) (sb_top_k sb)
              (sb_top_p sb) (sb_options sb) (sb_seed sb) 128
              \<lparr>rng = g, page = [Title ''Chest X-ray AI Diagnosis Demo'',
                 Text ''Made with Streamlit and Attention RNN'', Sidebar_title ''Configuration'',
                 Image ''Uploaded Image'', Log_running_analysis,
         Spinner ''Generating report... Do not refresh or close window.'']\<rparr> = (Inr (result, att, tokens), w1)"
  shows "main tf categorical (transformer, tok) cxr_validator_model read_image sb (Some file)
      \<lparr>rng = g, page = []\<rparr>
    = (case attention_plots tok result [0..<nat (tokens - 1)]
              (w1\<lparr>page := page w1 @ [Subheader ''Generated Report:'', Write (decode tok result),
                    Subheader ''Attention Plot:'']\<rparr>) of
         (Inl e, w) \<Rightarrow> (Inl e, w)
       | (Inr u, w) \<Rightarrow> (Inr (), w\<lparr>page := page w @ [Pyplot, Button ''Regenerate Report'']\<rparr>))"
  using assms by (simp add: main_def emit_def Let_def cong: prod.case_cong sum.case_cong)

lemma main_accepted_page:
  assumes rd: "read_image file = Inr img"
    and ok: "\<not> tf_nn_sigmoid (cxr_validator_model img) < 1 / 10"
    and m: "main tf categorical (transformer, tok) cxr_validator_model read_image sb (Some file)
      \<lparr>rng = g, page = []\<rparr> = (res, w')"
  shows "\<exists>evs. page w' =
      page (snd (evaluate tf categorical img tok transformer (sb_temperature sb) (sb_top_k sb)
        (sb_top_p sb) (sb_options sb) (sb_seed sb) 128
        \<lparr>rng = g, page = [Title ''Chest X-ray AI Diagnosis Demo'',
           Text ''Made with Streamlit and Attention RNN'', Sidebar_title ''Configuration'',
           Image ''Uploaded Image'', Log_running_analysis,
         Spinner ''Generating report... Do not refresh or close window.'']\<rparr>)) @ evs \<and>
      Info ''Image is not a Chest X-ray'' \<notin> set evs"
proof -
  let ?W = "\<lparr>rng = g, page = [Title ''Chest X-ray AI Diagnosis Demo'',
           Text ''Made with Streamlit and Attention RNN'', Sidebar_title ''Configuration'',
           Image ''Uploaded Image'', Log_running_analysis,
         Spinner ''Generating report... Do not refresh or close window.'']\<rparr>"
  obtain r w1 where e: "evaluate tf categorical img tok transformer (sb_temperature sb) (sb_top_k sb)
        (sb_top_p sb) (sb_options sb) (sb_seed sb) 128 ?W = (r, w1)"
    by (cases "evaluate tf categorical img tok transformer (sb_temperature sb) (sb_top_k sb)
        (sb_top_p sb) (sb_options sb) (sb_seed sb) 128 ?W") auto
  show ?thesis
  proof (cases r)
    case (Inl err)
    with e have e': "evaluate tf categorical img tok transformer (sb_temperature sb) (sb_top_k sb)
        (sb_top_p sb) (sb_options sb) (sb_seed sb) 128 ?W = (Inl err, w1)" by simp
    from main_accepts_Inl [where read_image = read_image and cxr_validator_model = cxr_validator_model, OF rd ok e'] m
    have "w' = w1" by simp
    with e show ?thesis by (intro exI [of _ "[]"]) simp
  next
    case (Inr x)
    obtain result att tokens where x: "x = (result, att, tokens)" by (cases x) auto
    let ?w2 = "w1\<lparr>page := page w1 @ [Subheader ''Generated Report:'', Write (decode tok result),
                    Subheader ''Attention Plot:'']\<rparr>"
    obtain r3 w3 where a: "attention_plots tok result [0..<nat (tokens - 1)] ?w2 = (r3, w3)"
      by (cases "attention_plots tok result [0..<nat (tokens - 1)] ?w2") auto
    from attention_plots_events [OF a] obtain evs where
      evs: "page w3 = page ?w2 @ evs" "\<forall>e \<in> set evs. is_subplot e" by blast
    from evs(2) have ni: "Info ''Image is not a Chest X-ray'' \<notin> set evs" by auto
    from e Inr x have e': "evaluate tf categorical img tok transformer (sb_temperature sb)
        (sb_top_k sb) (sb_top_p sb) (sb_options sb) (sb_seed sb) 128 ?W
        = (Inr (result, att, tokens), w1)" by simp
    from m a main_accepts_Inr [where read_image = read_image and cxr_validator_model = cxr_validator_model, OF rd ok e']
    have "page w' = page w3 \<or> page w' = page w3 @ [Pyplot, Button ''Regenerate Report'']"
      by (cases r3) auto
    then show ?thesis
    proof
      assume "page w' = page w3"
      with evs(1) e have "page w' = page (snd (evaluate tf categorical img tok transformer
          (sb_temperature sb) (sb_top_k sb) (sb_top_p sb) (sb_options sb) (sb_seed sb) 128 ?W)) @
          ([Subheader ''Generated Report:'', Write (decode tok result),
            Subheader ''Attention Plot:''] @ evs)" by simp
      with ni show ?thesis
        by (intro exI [of _ "[Subheader ''Generated Report:'', Write (decode tok result),
            Subheader ''Attention Plot:''] @ evs"]) simp
    next
      assume "page w' = page w3 @ [Pyplot, Button ''Regenerate Report'']"
      with evs(1) e have "page w' = page (snd (evaluate tf categorical img tok transformer
          (sb_temperature sb) (sb_top_k sb) (sb_top_p sb) (sb_options sb) (sb_seed sb) 128 ?W)) @
          ([Subheader ''Generated Report:'', Write (decode tok result),
            Subheader ''Attention Plot:''] @ evs @ [Pyplot, Button ''Regenerate Report''])" by simp
      with ni show ?thesis
        by (intro exI [of _ "[Subheader ''Generated Report:'', Write (decode tok result),
            Subheader ''Attention Plot:''] @ evs @ [Pyplot, Button ''Regenerate Report'']"]) simp
    qed
  qed
qed

lemma main_draws_tokens_minus_one:
  "read_image file = Inr img \<and> \<not> tf_nn_sigmoid (cxr_validator_model img) < 1 / 10 \<and>
   evaluate tf categorical img tok transformer (sb_temperature sb) (sb_top_k sb) (sb_top_p sb)
      (sb_options sb) (sb_seed sb) 128
      \<lparr>rng = g, page = [Title ''Chest X-ray AI Diagnosis Demo'',
         Text ''Made with Streamlit and Attention RNN'', Sidebar_title ''Configuration'',
         Image ''Uploaded Image'', Log_running_analysis,
         Spinner ''Generating report... Do not refresh or close window.'']\<rparr>
     = (Inr (result, att, tokens), w1) \<longrightarrow>
   (\<exists>w'. main tf categorical (transformer, tok) cxr_validator_model read_image sb (Some file)
           \<lparr>rng = g, page = []\<rparr> = (Inr (), w') \<and>
      subplots (page w') = nat (tokens - 1) \<and>
      (int (length result) = tokens \<or> int (length result) = tokens + 1) \<and>
      (result \<noteq> [] \<longrightarrow> subplots (page w') < length result))"
proof
  let ?W = "\<lparr>rng = g, page = [Title ''Chest X-ray AI Diagnosis Demo'',
         Text ''Made with Streamlit and Attention RNN'', Sidebar_title ''Configuration'',
         Image ''Uploaded Image'', Log_running_analysis,
         Spinner ''Generating report... Do not refresh or close window.'']\<rparr>"
  assume a: "read_image file = Inr img \<and> \<not> tf_nn_sigmoid (cxr_validator_model img) < 1 / 10 \<and>
   evaluate tf categorical img tok transformer (sb_temperature sb) (sb_top_k sb) (sb_top_p sb)
      (sb_options sb) (sb_seed sb) 128 ?W = (Inr (result, att, tokens), w1)"
  then have rd: "read_image file = Inr img"
    and ok: "\<not> tf_nn_sigmoid (cxr_validator_model img) < 1 / 10"
    and e: "evaluate tf categorical img tok transformer (sb_temperature sb) (sb_top_k sb) (sb_top_p sb)
      (sb_options sb) (sb_seed sb) 128 ?W = (Inr (result, att, tokens), w1)" by blast+
  from evaluate_result [OF e] have len: "int (length result) = tokens \<or> int (length result) = tokens + 1"
    and nn: "0 \<le> tokens" by blast+
  from evaluate_page [OF e] obtain evs where evs: "page w1 = page ?W @ evs"
    "set evs \<subseteq> range Progress \<union> {Empty, Write ''SHOULD NOT HAPPEN'', New_progress 0}" by blast
  have s1: "subplots (page w1) = 0"
    using evs subplots_decoder_events [OF evs(2)] by (simp add: subplots_append subplots_def)
  let ?w2 = "w1\<lparr>page := page w1 @ [Subheader ''Generated Report:'', Write (decode tok result),
                    Subheader ''Attention Plot:'']\<rparr>"
  let ?plots = "map (\<lambda>i. Subplot (i + 1) (decode tok [result ! i])) [0..<nat (tokens - 1)]"
  have "\<forall>i \<in> set [0..<nat (tokens - 1)]. i < length result" using len by auto
  from attention_plots_in_range [OF this]
  have ap: "attention_plots tok result [0..<nat (tokens - 1)] ?w2
      = (Inr (), ?w2\<lparr>page := page ?w2 @ ?plots\<rparr>)" .
  let ?w' = "?w2\<lparr>page := page ?w2 @ ?plots @ [Pyplot, Button ''Regenerate Report'']\<rparr>"
  have m: "main tf categorical (transformer, tok) cxr_validator_model read_image sb (Some file)
           \<lparr>rng = g, page = []\<rparr> = (Inr (), ?w')"
    using main_accepts_Inr [where read_image = read_image
        and cxr_validator_model = cxr_validator_model, OF rd ok e] ap
    by simp
  have c: "subplots (page ?w') = nat (tokens - 1)"
    using s1 by (simp add: subplots_append subplots_map_Subplot) (simp add: subplots_def)
  have lt: "subplots (page ?w') < length result" if "result \<noteq> []"
    using c len nn that by (cases result) auto
  from m c len lt show "\<exists>w'. main tf categorical (transformer, tok) cxr_validator_model read_image sb
           (Some file) \<lparr>rng = g, page = []\<rparr> = (Inr (), w') \<and>
      subplots (page w') = nat (tokens - 1) \<and>
      (int (length result) = tokens \<or> int (length result) = tokens + 1) \<and>
      (result \<noteq> [] \<longrightarrow> subplots (page w') < length result)"
    by blast
qed

section \<open>Evaluations at concrete rows\<close>

lemma sort_312: "tf_sort_descending [3, 1, 2] = [3, 2, 1]"
  by (simp add: tf_sort_descending_def)

lemma top_k_logits_312: "top_k_logits [3, 1, 2] 2 = Inr [3, sentinel, 2]"
  by (simp add: top_k_logits_def inner_top_k_def tf_nn_top_k_def sort_312 tf_where_below_def)

lemma sort_ln3: "tf_sort_descending [ln 3, 0] = [ln 3, 0]"
  by (simp add: tf_sort_descending_def)

lemma softmax_ln3: "exact_softmax [ln 3, 0] = [3 / 4, 1 / 4]"
  by (simp add: exact_softmax_def)

lemma nn_softmax_ln3: "nn_softmax exact_arithmetic [ln 3, 0] = [3 / 4, 1 / 4]"
  by (simp add: exact_arithmetic_def softmax_ln3)

lemma cumsum_ln3:
  "cumsum exact_arithmetic (nn_softmax exact_arithmetic [ln 3, 0]) = [3 / 4, 1]"
  by (simp add: exact_arithmetic_def softmax_ln3 exact_cumsum_def)

lemma top_p_logits_ln3: "top_p_logits exact_arithmetic [ln 3, 0] (9 / 10) = Inr [ln 3, sentinel]"
  by (simp add: top_p_logits_def Let_def cumsum_ln3 sort_ln3 tf_gather_nd_def tf_where_below_def)

lemma cumsum_float32_at_520:
  "cumsum float32_at_520 xs = [15879621 / 16777216, 16670221 / 16777216, 8388609 / 8388608]"
  by (simp add: float32_at_520_def float32_sums_of_520_def)

lemma sort_025: "tf_sort_descending [0, 2, 5] = [5, 2, 0]"
  by (simp add: tf_sort_descending_def)

lemma top_p_logits_025: "top_p_logits float32_at_520 [0, 2, 5] 1 = Inr [sentinel, 2, 5]"
  by (simp add: top_p_logits_def Let_def cumsum_float32_at_520 sort_025
      tf_gather_nd_def tf_where_below_def)

lemma truediv_exact_one: "truediv exact_arithmetic xs 1 = xs"
  by (simp add: exact_arithmetic_def)

lemma upt_three: "3 \<le> m \<Longrightarrow> [0..<m] = 0 # 1 # 2 # [3..<m]"
  by (simp add: upt_conv_Cons numeral_3_eq_3 numeral_2_eq_2)

lemma tf_argmax_0001: "tf_argmax [0, 0, 0, 1] = Inr 3"
  by (simp add: tf_argmax_def)

lemma tf_argmax_0010: "tf_argmax [0, 0, 1, 0] = Inr 2"
  by (simp add: tf_argmax_def)

lemma toy_step_0:
  "decode_step exact_arithmetic toy_categorical () toy_transformer 1 0 1 ''Greedy'' 42 [0] w = (Inr (3, 1), w)"
  by (simp add: decode_step_def truediv_exact_one toy_transformer_def top_k_logits_def top_p_logits_one
      tf_argmax_0001)

lemma toy_step_1:
  "decode_step exact_arithmetic toy_categorical () toy_transformer 1 0 1 ''Greedy'' 42 [0, 3] w = (Inr (3, 2), w)"
  by (simp add: decode_step_def truediv_exact_one toy_transformer_def top_k_logits_def top_p_logits_one
      tf_argmax_0001)

lemma toy_step_2:
  "decode_step exact_arithmetic toy_categorical () toy_transformer 1 0 1 ''Greedy'' 42 [0, 3, 3] w
     = (Inr (2, 3), w)"
  by (simp add: decode_step_def truediv_exact_one toy_transformer_def top_k_logits_def top_p_logits_one
      tf_argmax_0010)

lemma babbler_step:
  "decode_step exact_arithmetic toy_categorical () toy_babbler 1 0 1 ''Greedy'' 42 [0] w = (Inr (3, 1), w)"
  by (simp add: decode_step_def truediv_exact_one toy_babbler_def top_k_logits_def top_p_logits_one
      tf_argmax_0001)

lemma sampling_step:
  "decode_step exact_arithmetic toy_categorical () toy_babbler 1 0 1 ''Sampling'' 42 [0] w
     = (Inr (3, 1), w\<lparr>rng := Suc (rng w)\<rparr>)"
  by (simp add: decode_step_def truediv_exact_one toy_babbler_def top_k_logits_def top_p_logits_one
      toy_categorical_def)

lemma toy_run_any:
  "evaluate exact_arithmetic toy_categorical () toy_tokenizer toy_transformer 1 0 1 ''Greedy'' 42 128 w
     = (Inr ([3, 3], 3, 2),
        w\<lparr>page := page w @
          [New_progress 0, Progress 0, Progress (1 / 128), Progress (1 / 64), Empty]\<rparr>)"
  by (simp add: evaluate_def toy_tokenizer_def upt_three [of 128] toy_step_0 toy_step_1
      toy_step_2 emit_def)

lemma toy_run:
  "evaluate exact_arithmetic toy_categorical () toy_tokenizer toy_transformer 1 0 1 ''Greedy'' 42 128 fresh
     = (Inr ([3, 3], 3, 2),
        \<lparr>rng = 0, page =
          [New_progress 0, Progress 0, Progress (1 / 128), Progress (1 / 64), Empty]\<rparr>)"
  by (simp add: toy_run_any fresh_def)

lemma babbler_run:
  "evaluate exact_arithmetic toy_categorical () toy_tokenizer toy_babbler 1 0 1 ''Greedy'' 42 1 fresh
     = (Inr ([3], 1, 0), \<lparr>rng = 0, page = [New_progress 0, Progress 0, Empty]\<rparr>)"
  by (simp add: evaluate_def toy_tokenizer_def babbler_step emit_def fresh_def)

lemma first_then_stop_step:
  "decode_step exact_arithmetic toy_first_then_stop () toy_babbler 1 0 1 ''Sampling'' 42 outp w
     = (Inr (if rng w = 0 then 3 else 2, length outp), w\<lparr>rng := Suc (rng w)\<rparr>)"
  by (simp add: decode_step_def truediv_exact_one toy_babbler_def top_k_logits_def
      top_p_logits_one toy_first_then_stop_def)

lemma first_then_stop_run_0:
  "evaluate exact_arithmetic toy_first_then_stop () toy_tokenizer toy_babbler 1 0 1 ''Sampling'' 42
     128 \<lparr>rng = 0, page = pg\<rparr>
     = (Inr ([3], 2, 1),
        \<lparr>rng = 2, page = pg @ [New_progress 0, Progress 0, Progress (1 / 128), Empty]\<rparr>)"
  by (simp add: evaluate_def toy_tokenizer_def upt_three [of 128] first_then_stop_step emit_def)

lemma first_then_stop_run_2:
  "evaluate exact_arithmetic toy_first_then_stop () toy_tokenizer toy_babbler 1 0 1 ''Sampling'' 42
     128 \<lparr>rng = 2, page = []\<rparr>
     = (Inr ([], 1, 0), \<lparr>rng = 3, page = [New_progress 0, Progress 0, Empty]\<rparr>)"
  by (simp add: evaluate_def toy_tokenizer_def upt_three [of 128] first_then_stop_step emit_def)

lemma sigmoid_ln9: "tf_nn_sigmoid (- ln 9) = 1 / 10"
  by (simp add: tf_nn_sigmoid_def)

lemma sigmoid_0: "tf_nn_sigmoid 0 = 1 / 2"
  by (simp add: tf_nn_sigmoid_def)

lemma sigmoid_ln10: "tf_nn_sigmoid (- ln 10) = 1 / 11"
  by (simp add: tf_nn_sigmoid_def)

lemma toy_main_run:
  "main exact_arithmetic toy_categorical (toy_transformer, toy_tokenizer) (\<lambda>img. - ln 9) Inr
      \<lparr>sb_options = ''Greedy'', sb_seed = 42, sb_temperature = 1, sb_top_k = 0, sb_top_p = 1\<rparr>
      (Some ()) fresh
    = (Inr (), \<lparr>rng = 0, page = [Title ''Chest X-ray AI Diagnosis Demo'',
         Text ''Made with Streamlit and Attention RNN'', Sidebar_title ''Configuration'',
         Image ''Uploaded Image'', Log_running_analysis,
         Spinner ''Generating report... Do not refresh or close window.'',
         New_progress 0, Progress 0, Progress (1 / 128), Progress (1 / 64), Empty,
         Subheader ''Generated Report:'', Write ''lungs lungs '', Subheader ''Attention Plot:'',
         Subplot 1 ''lungs '', Pyplot, Button ''Regenerate Report'']\<rparr>)"
  by (simp add: main_def sigmoid_ln9 toy_run_any emit_def fresh_def)
    (simp add: toy_tokenizer_def)

lemma toy_main_run_0:
  "main exact_arithmetic toy_categorical (toy_transformer, toy_tokenizer) (\<lambda>img. 0) Inr
      \<lparr>sb_options = ''Greedy'', sb_seed = 42, sb_temperature = 1, sb_top_k = 0, sb_top_p = 1\<rparr>
      (Some ()) fresh
    = (Inr (), \<lparr>rng = 0, page = [Title ''Chest X-ray AI Diagnosis Demo'',
         Text ''Made with Streamlit and Attention RNN'', Sidebar_title ''Configuration'',
         Image ''Uploaded Image'', Log_running_analysis,
         Spinner ''Generating report... Do not refresh or close window.'',
         New_progress 0, Progress 0, Progress (1 / 128), Progress (1 / 64), Empty,
         Subheader ''Generated Report:'', Write ''lungs lungs '', Subheader ''Attention Plot:'',
         Subplot 1 ''lungs '', Pyplot, Button ''Regenerate Report'']\<rparr>)"
  by (simp add: main_def sigmoid_0 toy_run_any emit_def fresh_def)
    (simp add: toy_tokenizer_def)

lemma toy_main_rejected:
  "main exact_arithmetic toy_categorical (toy_transformer, toy_tokenizer) (\<lambda>img. - ln 10) Inr
      \<lparr>sb_options = ''Greedy'', sb_seed = 42, sb_temperature = 1, sb_top_k = 0, sb_top_p = 1\<rparr>
      (Some ()) fresh
    = (Inr (), \<lparr>rng = 0, page = [Title ''Chest X-ray AI Diagnosis Demo'',
         Text ''Made with Streamlit and Attention RNN'', Sidebar_title ''Configuration'',
         Image ''Uploaded Image'', Info ''Image is not a Chest X-ray'']\<rparr>)"
  by (simp add: main_def sigmoid_ln10 emit_def fresh_def)

section \<open>The filters: claims C1, C2 and C10\<close>

text \<open>
  C1, as amended. The claim says that for \<open>p\<close> in \<open>(0,1)\<close> the retained logits are the
  smallest prefix of the descending order whose cumulative softmax probability reaches
  \<open>p\<close>, and that \<open>p = 1\<close> changes nothing. The code counts the cumulative probabilities
  that are at most \<open>p\<close>. For a row with at least one logit, with \<open>cs\<close> the cumulative
  probabilities as TensorFlow computes them over the descending order (a row of the
  same length) and \<open>n\<close> the number of them that are at most \<open>p\<close>: \<open>top_p_logits\<close> keeps
  every logit that is not below the score at position \<open>max n 1 - 1\<close> of the descending
  order and writes the sentinel over all others. When \<open>cs\<close> is non-decreasing, \<open>n\<close> is the
  length of the longest prefix whose cumulative probability is at most \<open>p\<close>. The row is
  returned unchanged when no cumulative probability exceeds \<open>p\<close>; for \<open>p = 1\<close> exact
  arithmetic guarantees that, float rounding does not.
\<close>

theorem top_p_logits_keeps_prefix_within_p:
  "logits \<noteq> [] \<and> cs = cumsum tf (nn_softmax tf (tf_sort_descending logits)) \<and>
   length cs = length logits \<and> n = length (filter (\<lambda>c. c \<le> p) cs) \<longrightarrow>
     top_p_logits tf logits p =
       Inr (map (\<lambda>x. if x < tf_sort_descending logits ! (n - 1) then sentinel else x) logits) \<and>
     (sorted cs \<longrightarrow> (\<forall>j<length logits. cs ! j \<le> p \<longleftrightarrow> j < n)) \<and>
     ((\<forall>c \<in> set cs. c \<le> p) \<longrightarrow> top_p_logits tf logits p = Inr logits)"
proof (intro impI conjI)
  assume a: "logits \<noteq> [] \<and> cs = cumsum tf (nn_softmax tf (tf_sort_descending logits)) \<and>
   length cs = length logits \<and> n = length (filter (\<lambda>c. c \<le> p) cs)"
  then have ne: "logits \<noteq> []"
    and len: "length (cumsum tf (nn_softmax tf (tf_sort_descending logits))) = length logits"
    by auto
  from a top_p_logits_boundary [OF ne len, of p]
  show "top_p_logits tf logits p =
       Inr (map (\<lambda>x. if x < tf_sort_descending logits ! (n - 1) then sentinel else x) logits)"
    by (simp add: tf_where_below_def)
  show "\<forall>j<length logits. cs ! j \<le> p \<longleftrightarrow> j < n" if "sorted cs"
  proof (intro allI impI)
    fix j assume "j < length logits"
    moreover from a have "length cs = length logits" "n = length (filter (\<lambda>c. c \<le> p) cs)"
      by blast+
    ultimately show "cs ! j \<le> p \<longleftrightarrow> j < n"
      using sorted_filter_prefix [OF that, of j p] by simp
  qed
  show "top_p_logits tf logits p = Inr logits" if "\<forall>c \<in> set cs. c \<le> p"
    using a that top_p_logits_all_within [OF ne len, of p] by simp
qed

text \<open>
  The theorem in exact arithmetic at the row \<open>[ln 3, 0]\<close>, whose cumulative probabilities
  are \<open>3/4\<close> and \<open>1\<close>: with \<open>p = 9/10\<close> one of them is within \<open>p\<close> and the second logit is
  masked; with \<open>p = 1\<close> both are and the row is unchanged.
\<close>

theorem top_p_logits_keeps_prefix_within_p_witness:
  "[ln 3, 0 :: real] \<noteq> [] \<and>
   cumsum exact_arithmetic (nn_softmax exact_arithmetic (tf_sort_descending [ln 3, 0]))
     = [3 / 4, 1] \<and>
   length [3 / 4, 1 :: real] = length [ln 3, 0 :: real] \<and>
   length (filter (\<lambda>c. c \<le> 9 / 10) [3 / 4, 1 :: real]) = 1 \<and>
   sorted [3 / 4, 1 :: real] \<and>
   top_p_logits exact_arithmetic [ln 3, 0] (9 / 10) = Inr [ln 3, sentinel] \<and>
   top_p_logits exact_arithmetic [ln 3, 0] 1 = Inr [ln 3, 0]"
  using top_p_logits_keeps_prefix_within_p [of "[ln 3, 0]" "[3 / 4, 1]" exact_arithmetic 1 "9 / 10"]
    top_p_logits_keeps_prefix_within_p [of "[ln 3, 0]" "[3 / 4, 1]" exact_arithmetic 2 1]
  by (simp add: cumsum_ln3 sort_ln3)

text \<open>
  C1 as stated fails in both parts. On the row \<open>[ln 3, 0]\<close> with \<open>p = 9/10\<close> only the first
  candidate is retained, and its cumulative probability \<open>3/4\<close> is below \<open>p\<close>; the smallest
  prefix that reaches \<open>p\<close> is the whole row. On the row \<open>[0, 2, 5]\<close> with \<open>p = 1\<close> and the
  cumulative sums of 32-bit floats, the last of which is above 1, the logit 0 is masked.
\<close>

theorem top_p_logits_below_p_counterexample:
  "top_p_logits exact_arithmetic [ln 3, 0] (9 / 10) = Inr [ln 3, sentinel] \<and>
   nn_softmax exact_arithmetic (tf_sort_descending [ln 3, 0]) = [3 / 4, 1 / 4] \<and>
   \<not> (9 / 10 :: real) \<le> 3 / 4 \<and>
   cumsum float32_at_520 (nn_softmax float32_at_520 (tf_sort_descending [0, 2, 5]))
     = [15879621 / 16777216, 16670221 / 16777216, 8388609 / 8388608] \<and>
   \<not> (8388609 / 8388608 :: real) \<le> 1 \<and>
   top_p_logits float32_at_520 [0, 2, 5] 1 = Inr [sentinel, 2, 5]"
  by (simp add: top_p_logits_ln3 top_p_logits_025 sort_ln3 nn_softmax_ln3 cumsum_float32_at_520)

text \<open>
  C2, as amended. For \<open>k = 0\<close> the output is the input. For \<open>1 \<le> k \<le> length logits\<close>, with
  \<open>b\<close> the \<open>k\<close>-th highest score, \<open>top_k_logits\<close> keeps every logit that is not below \<open>b\<close>
  and writes the sentinel over all others; at least \<open>k\<close> logits are kept, fewer than \<open>k\<close>
  of them lie strictly above \<open>b\<close>, and when the logits are pairwise distinct exactly \<open>k\<close>
  are kept, so that at most \<open>k\<close> are unmasked. (The claim's bound of \<open>k\<close> fails when
  logits tie with \<open>b\<close>; a \<open>k\<close> above the number of logits is an error of \<^verbatim>\<open>tf.nn.top_k\<close>.)
\<close>

theorem top_k_logits_keeps_kth_and_ties:
  "top_k_logits logits 0 = Inr logits \<and>
   (1 \<le> k \<and> k \<le> int (length logits) \<and> b = tf_sort_descending logits ! (nat k - 1) \<longrightarrow>
     (\<exists>out. top_k_logits logits k = Inr out \<and> length out = length logits \<and>
        (\<forall>i<length logits. out ! i = (if logits ! i < b then sentinel else logits ! i)) \<and>
        nat k \<le> length (filter (\<lambda>x. \<not> x < b) logits) \<and>
        length (filter (\<lambda>x. b < x) logits) < nat k \<and>
        (distinct logits \<longrightarrow>
           length (filter (\<lambda>x. \<not> x < b) logits) = nat k \<and> unmasked out \<le> nat k)))"
proof (intro conjI impI)
  show "top_k_logits logits 0 = Inr logits" by (simp add: top_k_logits_def)
next
  assume a: "1 \<le> k \<and> k \<le> int (length logits) \<and> b = tf_sort_descending logits ! (nat k - 1)"
  then have k: "1 \<le> nat k" "nat k \<le> length logits" by auto
  let ?out = "tf_where_below logits b"
  have 1: "top_k_logits logits k = Inr ?out" using a top_k_logits_ok by simp
  have 2: "length ?out = length logits" by (rule length_tf_where_below)
  have 3: "\<forall>i<length logits. ?out ! i = (if logits ! i < b then sentinel else logits ! i)"
    by (simp add: nth_tf_where_below)
  have 4: "nat k \<le> length (filter (\<lambda>x. \<not> x < b) logits)"
    using kept_at_least_k [OF k] a by simp
  have 5: "length (filter (\<lambda>x. b < x) logits) < nat k"
    using above_less_k [OF k] a by simp
  have 6: "length (filter (\<lambda>x. \<not> x < b) logits) = nat k \<and> unmasked ?out \<le> nat k"
    if "distinct logits"
  proof -
    have e: "length (filter (\<lambda>x. \<not> x < b) logits) = nat k"
      using kept_exactly_k [OF k that] a by simp
    with unmasked_where_below [of logits b] show ?thesis by simp
  qed
  from 1 2 3 4 5 6
  show "\<exists>out. top_k_logits logits k = Inr out \<and> length out = length logits \<and>
        (\<forall>i<length logits. out ! i = (if logits ! i < b then sentinel else logits ! i)) \<and>
        nat k \<le> length (filter (\<lambda>x. \<not> x < b) logits) \<and>
        length (filter (\<lambda>x. b < x) logits) < nat k \<and>
        (distinct logits \<longrightarrow>
           length (filter (\<lambda>x. \<not> x < b) logits) = nat k \<and> unmasked out \<le> nat k)"
    by blast
qed

text \<open>The theorem at the row \<open>[3, 1, 2]\<close> with \<open>k = 2\<close>, where \<open>b = 2\<close>.\<close>

theorem top_k_logits_keeps_kth_and_ties_witness:
  "(1 :: int) \<le> 2 \<and> (2 :: int) \<le> int (length [3, 1, 2 :: real]) \<and> distinct [3, 1, 2 :: real] \<and>
   top_k_logits [3, 1, 2] 2 = Inr [3, sentinel, 2] \<and> unmasked [3, sentinel, 2] \<le> 2"
proof -
  have "tf_sort_descending [3, 1, 2] ! (nat 2 - 1) = 2" by (simp add: sort_312)
  with top_k_logits_keeps_kth_and_ties [of "[3, 1, 2]" 2 2]
  obtain out where o: "top_k_logits [3, 1, 2] 2 = Inr out" "unmasked out \<le> 2"
    by auto
  then show ?thesis by (simp add: top_k_logits_312)
qed

text \<open>
  C2 as stated fails: two equal logits and \<open>k = 1\<close> leave two logits unmasked.
\<close>

theorem top_k_logits_ties_counterexample:
  "top_k_logits [1, 1] 1 = Inr [1, 1] \<and> unmasked [1, 1] = 2 \<and> \<not> (2 :: nat) \<le> 1"
  by (simp add: top_k_logits_def inner_top_k_def tf_nn_top_k_def tf_sort_descending_def
      tf_where_below_def unmasked_def sentinel_def)

text \<open>
  C10. Whenever a filter returns a row, the row has the length of the input and each of
  its coordinates is the input's coordinate or the sentinel. With \<open>k \<noteq> 0\<close> the boundary
  of \<open>top_k_logits\<close> is the \<open>k\<close>-th highest score, a score of the row, and a coordinate is
  masked exactly when it is strictly below it; \<open>top_p_logits\<close> masks exactly the
  coordinates strictly below one of the row's scores. A logit equal to the boundary is
  therefore kept.
\<close>

theorem filters_mask_pointwise:
  "(top_k_logits logits k = Inr out \<longrightarrow>
      length out = length logits \<and>
      (\<forall>i<length logits. out ! i = logits ! i \<or> out ! i = sentinel) \<and>
      (k \<noteq> 0 \<longrightarrow> tf_sort_descending logits ! (nat k - 1) \<in> set logits \<and>
         (\<forall>i<length logits. out ! i =
            (if logits ! i < tf_sort_descending logits ! (nat k - 1) then sentinel else logits ! i)))) \<and>
   (top_p_logits tf logits p = Inr out \<longrightarrow>
      length out = length logits \<and>
      (\<forall>i<length logits. out ! i = logits ! i \<or> out ! i = sentinel) \<and>
      (\<exists>b \<in> set logits. \<forall>i<length logits. out ! i = (if logits ! i < b then sentinel else logits ! i)))"
proof (intro conjI impI)
  assume k: "top_k_logits logits k = Inr out"
  show "length out = length logits"
  proof (cases "k = 0")
    case True with k show ?thesis by (simp add: top_k_logits_def)
  next
    case False
    with k top_k_logits_Inr top_k_logits_ok [of k logits] show ?thesis
      by (auto simp: length_tf_where_below)
  qed
  show "\<forall>i<length logits. out ! i = logits ! i \<or> out ! i = sentinel"
  proof (cases "k = 0")
    case True with k show ?thesis by (simp add: top_k_logits_def)
  next
    case False
    with k top_k_logits_Inr top_k_logits_ok [of k logits] show ?thesis
      by (auto simp: nth_tf_where_below)
  qed
next
  assume k: "top_k_logits logits k = Inr out" and nz: "k \<noteq> 0"
  let ?b = "tf_sort_descending logits ! (nat k - 1)"
  from k nz have r: "1 \<le> k" "k \<le> int (length logits)" using top_k_logits_Inr by auto
  then have "nat k - 1 < length (tf_sort_descending logits)"
    by (simp add: length_tf_sort_descending)
  then have "?b \<in> set (tf_sort_descending logits)" by (rule nth_mem)
  then show "?b \<in> set logits" by (simp add: set_tf_sort_descending)
  from k top_k_logits_ok [OF r] have "out = tf_where_below logits ?b" by simp
  then show "\<forall>i<length logits. out ! i = (if logits ! i < ?b then sentinel else logits ! i)"
    by (simp add: nth_tf_where_below)
next
  assume p: "top_p_logits tf logits p = Inr out"
  then obtain b where b: "b \<in> set logits" "out = tf_where_below logits b"
    using top_p_logits_Inr by blast
  show "length out = length logits" using b by (simp add: length_tf_where_below)
  show "\<forall>i<length logits. out ! i = logits ! i \<or> out ! i = sentinel"
    using b by (simp add: nth_tf_where_below)
  show "\<exists>b \<in> set logits. \<forall>i<length logits. out ! i = (if logits ! i < b then sentinel else logits ! i)"
    using b by (auto simp: nth_tf_where_below)
qed

text \<open>
  The theorem at the rows \<open>[3, 1, 2]\<close> with \<open>k = 2\<close> and \<open>[ln 3, 0]\<close> with \<open>p = 9/10\<close>.
\<close>

theorem filters_mask_pointwise_witness:
  "top_k_logits [3, 1, 2] 2 = Inr [3, sentinel, 2] \<and>
   top_p_logits exact_arithmetic [ln 3, 0] (9 / 10) = Inr [ln 3, sentinel] \<and>
   length [3, sentinel, 2] = length [3, 1, 2 :: real] \<and>
   tf_sort_descending [3, 1, 2] ! (nat 2 - 1) \<in> set [3, 1, 2] \<and>
   length [ln 3, sentinel] = length [ln 3, 0 :: real]"
  using filters_mask_pointwise [of "[3, 1, 2]" 2 "[3, sentinel, 2]" exact_arithmetic 0]
    filters_mask_pointwise [of "[ln 3, 0]" 0 "[ln 3, sentinel]" exact_arithmetic "9 / 10"]
  by (simp add: top_k_logits_312 top_p_logits_ln3)

section \<open>The decoding loop: claims C3, C4, C5 and C7\<close>

text \<open>
  C3. \<open>evaluate\<close> is a total function: for every sampler, image, tokenizer, transformer and
  configuration it returns an outcome and a page, having opened at most \<open>MAX_LENGTH\<close>
  decoding steps (none when \<open>MAX_LENGTH\<close> is not positive). A pass of the loop whose
  selected id is the stop token 2 returns at once, whatever indices remain, with the
  tokens gathered so far.
\<close>

theorem evaluate_terminates_within_MAX_LENGTH:
  "(\<exists>res w'. evaluate tf categorical inp_img tok transformer temperature top_k top_p options seed
        MAX_LENGTH w = (res, w') \<and>
      steps_executed (page w') \<le> steps_executed (page w) + nat MAX_LENGTH) \<and>
   (decode_step tf categorical inp_img transformer temperature top_k top_p options seed outp
        (emit (Progress (real i / real_of_int MAX_LENGTH)) w) = (Inr (2, att), w1) \<longrightarrow>
      evaluate_loop tf categorical inp_img transformer temperature top_k top_p options seed MAX_LENGTH
        (i # rest) outp bnd w = (Inr (drop 1 outp, att, int i), emit Empty w1))"
proof (intro conjI impI)
  obtain res w' where e: "evaluate tf categorical inp_img tok transformer temperature top_k top_p
      options seed MAX_LENGTH w = (res, w')"
    by (cases "evaluate tf categorical inp_img tok transformer temperature top_k top_p
      options seed MAX_LENGTH w") auto
  have "steps_executed (page w') \<le> steps_executed (page w) + nat MAX_LENGTH"
  proof (cases "token_to_id tok ''<s>''")
    case None
    with e show ?thesis by (simp add: evaluate_def)
  next
    case (Some start)
    with e have "evaluate_loop tf categorical inp_img transformer temperature top_k top_p options seed
        MAX_LENGTH [0..<nat MAX_LENGTH] [start] None (emit (New_progress 0) w) = (res, w')"
      by (simp add: evaluate_def)
    from evaluate_loop_steps_le [OF this] show ?thesis by (simp add: steps_emit_other)
  qed
  with e show "\<exists>res w'. evaluate tf categorical inp_img tok transformer temperature top_k top_p options
        seed MAX_LENGTH w = (res, w') \<and>
      steps_executed (page w') \<le> steps_executed (page w) + nat MAX_LENGTH"
    by blast
next
  assume "decode_step tf categorical inp_img transformer temperature top_k top_p options seed outp
        (emit (Progress (real i / real_of_int MAX_LENGTH)) w) = (Inr (2, att), w1)"
  then show "evaluate_loop tf categorical inp_img transformer temperature top_k top_p options seed
        MAX_LENGTH (i # rest) outp bnd w = (Inr (drop 1 outp, att, int i), emit Empty w1)"
    by simp
qed

text \<open>
  The theorem on the small model: the third pass selects the stop token and the loop
  returns although the indices 3 and 4 remain.
\<close>

theorem evaluate_terminates_within_MAX_LENGTH_witness:
  "decode_step exact_arithmetic toy_categorical () toy_transformer 1 0 1 ''Greedy'' 42 [0, 3, 3]
       (emit (Progress (real 2 / real_of_int 128)) fresh)
     = (Inr (2, 3), emit (Progress (real 2 / real_of_int 128)) fresh) \<and>
   evaluate_loop exact_arithmetic toy_categorical () toy_transformer 1 0 1 ''Greedy'' 42 128 [2, 3, 4] [0, 3, 3]
       (Some (2, 1)) fresh
     = (Inr ([3, 3], 3, 2), emit Empty (emit (Progress (real 2 / real_of_int 128)) fresh)) \<and>
   (\<exists>res w'. evaluate exact_arithmetic toy_categorical () toy_tokenizer toy_transformer 1 0 1 ''Greedy'' 42 128 fresh
       = (res, w') \<and> steps_executed (page w') \<le> steps_executed (page fresh) + nat 128)"
  using evaluate_terminates_within_MAX_LENGTH [of exact_arithmetic toy_categorical "()" toy_tokenizer
      toy_transformer 1 0 1 "''Greedy''" 42 128 fresh "[0, 3, 3]" 2 3
      "emit (Progress (real 2 / real_of_int 128)) fresh" "[3, 4]" "Some (2, 1)"]
  by (simp add: toy_step_2)

text \<open>
  C4. The sequence \<open>evaluate\<close> returns does not contain the stop token 2 and holds at most
  one token per decoding step. The loop returns its token tensor without the first
  element: the tensor at the return is the tensor at entry followed by the generated
  tokens, none of them 2, and the result is that tensor after its head, which in
  \<open>evaluate\<close> is the start token. With \<open>MAX_LENGTH = 1\<close> and a first pass that selects
  \<open>t \<noteq> 2\<close> the result is exactly \<open>[t]\<close>.
\<close>

theorem evaluate_strips_start_and_stop:
  "(evaluate tf categorical inp_img tok transformer temperature top_k top_p options seed MAX_LENGTH w
        = (Inr (result, att, i), w') \<longrightarrow>
      2 \<notin> set result \<and>
      steps_executed (page w) + length result \<le> steps_executed (page w')) \<and>
   (evaluate_loop tf categorical inp_img transformer temperature top_k top_p options seed MAX_LENGTH
        idxs outp bnd w = (Inr (result, att, i), w') \<and> outp \<noteq> [] \<longrightarrow>
      (\<exists>gen. outp @ gen = hd outp # result \<and> 2 \<notin> set gen)) \<and>
   (token_to_id tok ''<s>'' = Some start \<and>
    decode_step tf categorical inp_img transformer temperature top_k top_p options seed [start]
        (emit (Progress 0) (emit (New_progress 0) w)) = (Inr (t, att), w1) \<and> t \<noteq> 2 \<longrightarrow>
      evaluate tf categorical inp_img tok transformer temperature top_k top_p options seed 1 w
        = (Inr ([t], att, 0), emit Empty w1))"
proof (intro conjI impI)
  assume e: "evaluate tf categorical inp_img tok transformer temperature top_k top_p options seed
      MAX_LENGTH w = (Inr (result, att, i), w')"
  from evaluate_result [OF e] show "2 \<notin> set result" by blast
  from evaluate_result [OF e]
  have "steps_executed (page w') = steps_executed (page w) + nat (i + 1)"
    "int (length result) = i \<or> int (length result) = i + 1" by blast+
  then show "steps_executed (page w) + length result \<le> steps_executed (page w')" by auto
next
  assume "evaluate_loop tf categorical inp_img transformer temperature top_k top_p options seed
      MAX_LENGTH idxs outp bnd w = (Inr (result, att, i), w') \<and> outp \<noteq> []"
  then have l: "evaluate_loop tf categorical inp_img transformer temperature top_k top_p options seed
      MAX_LENGTH idxs outp bnd w = (Inr (result, att, i), w')" and ne: "outp \<noteq> []" by blast+
  from evaluate_loop_result [OF l ne] obtain gen where
    g: "result = drop 1 outp @ gen" "2 \<notin> set gen" by blast
  from ne g(1) have "outp @ gen = hd outp # result" by (cases outp) auto
  with g(2) show "\<exists>gen. outp @ gen = hd outp # result \<and> 2 \<notin> set gen" by blast
next
  assume "token_to_id tok ''<s>'' = Some start \<and>
    decode_step tf categorical inp_img transformer temperature top_k top_p options seed [start]
        (emit (Progress 0) (emit (New_progress 0) w)) = (Inr (t, att), w1) \<and> t \<noteq> 2"
  then show "evaluate tf categorical inp_img tok transformer temperature top_k top_p options seed 1 w
        = (Inr ([t], att, 0), emit Empty w1)"
    by (simp add: evaluate_def)
qed

text \<open>
  The theorem on \<open>toy_babbler\<close> in Sampling mode with \<open>MAX_LENGTH = 1\<close>: one draw, and
  the result is \<open>[3]\<close>.
\<close>

theorem evaluate_strips_start_and_stop_witness:
  "token_to_id toy_tokenizer ''<s>'' = Some 0 \<and>
   decode_step exact_arithmetic toy_categorical () toy_babbler 1 0 1 ''Sampling'' 42 [0]
       (emit (Progress 0) (emit (New_progress 0) fresh))
     = (Inr (3, 1), \<lparr>rng = 1, page = [New_progress 0, Progress 0]\<rparr>) \<and>
   (3 :: int) \<noteq> 2 \<and>
   evaluate exact_arithmetic toy_categorical () toy_tokenizer toy_babbler 1 0 1 ''Sampling'' 42 1 fresh
     = (Inr ([3], 1, 0), \<lparr>rng = 1, page = [New_progress 0, Progress 0, Empty]\<rparr>) \<and>
   2 \<notin> set [3 :: int]"
proof -
  have t: "token_to_id toy_tokenizer ''<s>'' = Some 0" by (simp add: toy_tokenizer_def)
  have d: "decode_step exact_arithmetic toy_categorical () toy_babbler 1 0 1 ''Sampling'' 42 [0]
       (emit (Progress 0) (emit (New_progress 0) fresh))
     = (Inr (3, 1), \<lparr>rng = 1, page = [New_progress 0, Progress 0]\<rparr>)"
    by (simp add: sampling_step emit_def fresh_def)
  from evaluate_strips_start_and_stop [of exact_arithmetic toy_categorical "()" toy_tokenizer toy_babbler 1 0 1
      "''Sampling''" 42 1 fresh "[3]" 1 0 "\<lparr>rng = 1, page = [New_progress 0, Progress 0, Empty]\<rparr>"
      "[]" "[0]" None 0 3 "\<lparr>rng = 1, page = [New_progress 0, Progress 0]\<rparr>"] t d
  show ?thesis by (simp add: emit_def)
qed

text \<open>
  C5, as amended. The claim says that the third component is the number of decoding
  steps executed. It is the index \<open>i\<close> of the last pass of the loop, which counts from 0:
  whenever \<open>evaluate\<close> returns a result, \<open>i + 1\<close> steps were executed and
  \<open>0 \<le> i < MAX_LENGTH\<close>. The number of returned tokens is \<open>i\<close>, or \<open>i + 1\<close>; the latter
  only when all \<open>MAX_LENGTH\<close> steps were executed.
\<close>

theorem evaluate_returns_last_step_index:
  "evaluate tf categorical inp_img tok transformer temperature top_k top_p options seed MAX_LENGTH w
        = (Inr (result, att, i), w') \<longrightarrow>
     steps_executed (page w') = steps_executed (page w) + nat (i + 1) \<and>
     0 \<le> i \<and> i < MAX_LENGTH \<and>
     (int (length result) = i \<or> int (length result) = i + 1) \<and>
     (int (length result) = i + 1 \<longrightarrow> i + 1 = MAX_LENGTH)"
  using evaluate_result [of tf categorical inp_img tok transformer temperature top_k top_p options
      seed MAX_LENGTH w result att i w']
  by blast

text \<open>The theorem on the small model: three steps, third component 2, two tokens.\<close>

theorem evaluate_returns_last_step_index_witness:
  "evaluate exact_arithmetic toy_categorical () toy_tokenizer toy_transformer 1 0 1 ''Greedy'' 42 128 fresh
     = (Inr ([3, 3], 3, 2),
        \<lparr>rng = 0, page =
          [New_progress 0, Progress 0, Progress (1 / 128), Progress (1 / 64), Empty]\<rparr>) \<and>
   steps_executed [New_progress 0, Progress 0, Progress (1 / 128), Progress (1 / 64), Empty]
     = steps_executed (page fresh) + nat (2 + 1) \<and>
   int (length [3, 3 :: int]) = 2"
  using evaluate_returns_last_step_index [of exact_arithmetic toy_categorical "()" toy_tokenizer toy_transformer
      1 0 1 "''Greedy''" 42 128 fresh "[3, 3]" 3 2
      "\<lparr>rng = 0, page =
          [New_progress 0, Progress 0, Progress (1 / 128), Progress (1 / 64), Empty]\<rparr>"]
  by (simp add: toy_run)

text \<open>
  C5 as stated fails on both paths: the small model stops in its third step and returns
  2; \<open>toy_babbler\<close> with \<open>MAX_LENGTH = 1\<close> runs one step without a stop token and returns 0.
\<close>

theorem evaluate_step_count_counterexample:
  "evaluate exact_arithmetic toy_categorical () toy_tokenizer toy_transformer 1 0 1 ''Greedy'' 42 128 fresh
     = (Inr ([3, 3], 3, 2),
        \<lparr>rng = 0, page =
          [New_progress 0, Progress 0, Progress (1 / 128), Progress (1 / 64), Empty]\<rparr>) \<and>
   steps_executed [New_progress 0, Progress 0, Progress (1 / 128), Progress (1 / 64), Empty] = 3 \<and>
   evaluate exact_arithmetic toy_categorical () toy_tokenizer toy_babbler 1 0 1 ''Greedy'' 42 1 fresh
     = (Inr ([3], 1, 0), \<lparr>rng = 0, page = [New_progress 0, Progress 0, Empty]\<rparr>) \<and>
   steps_executed [New_progress 0, Progress 0, Empty] = 1 \<and>
   (2 :: int) \<noteq> 3 \<and> (0 :: int) \<noteq> 1"
  by (simp add: toy_run babbler_run steps_executed_def)




section \<open>Sampling: claim C8\<close>

text \<open>
  C8, as amended. The claim says that two runs with the same image, model, seed and
  configuration return the same tokens. \<open>evaluate\<close> reads the state of the random
  generator and nothing else of its surroundings: two runs with the same arguments that
  start from the same generator state have the same outcome (tokens, attention weights
  and index, or the same error), whatever is on the page. The seed alone does not fix
  the outcome: a second run starts from the state in which the first left the
  generator.
\<close>

theorem evaluate_depends_on_generator_state:
  "rng w1 = rng w2 \<longrightarrow>
     fst (evaluate tf categorical inp_img tok transformer temperature top_k top_p options seed
            MAX_LENGTH w1)
       = fst (evaluate tf categorical inp_img tok transformer temperature top_k top_p options seed
            MAX_LENGTH w2)"
  using evaluate_rng [of w1 w2 tf categorical inp_img tok transformer temperature top_k top_p
      options seed MAX_LENGTH]
  by blast

text \<open>
  The theorem on Sampling runs of the small model with the sampler \<open>toy_first_then_stop\<close>:
  from the generator's first state the result is \<open>[3]\<close>, on an empty page and on a page
  that already shows a title.
\<close>

theorem evaluate_depends_on_generator_state_witness:
  "rng \<lparr>rng = 0 :: nat, page = []\<rparr> = rng \<lparr>rng = 0 :: nat, page = [Title ''Demo'']\<rparr> \<and>
   fst (evaluate exact_arithmetic toy_first_then_stop () toy_tokenizer toy_babbler 1 0 1
          ''Sampling'' 42 128 \<lparr>rng = 0, page = []\<rparr>) = Inr ([3], 2, 1) \<and>
   fst (evaluate exact_arithmetic toy_first_then_stop () toy_tokenizer toy_babbler 1 0 1
          ''Sampling'' 42 128 \<lparr>rng = 0, page = [Title ''Demo'']\<rparr>) = Inr ([3], 2, 1)"
  using evaluate_depends_on_generator_state [of "\<lparr>rng = 0 :: nat, page = []\<rparr>"
      "\<lparr>rng = 0 :: nat, page = [Title ''Demo'']\<rparr>" exact_arithmetic toy_first_then_stop "()"
      toy_tokenizer toy_babbler 1 0 1 "''Sampling''" 42 128]
  by (simp add: first_then_stop_run_0)

text \<open>
  C8 as stated fails: with the same image, model, seed 42 and configuration, the first
  Sampling run returns \<open>[3]\<close> and leaves the generator in state 2, and the second run, which
  starts there, returns the empty sequence.
\<close>

theorem sampling_second_run_counterexample:
  "evaluate exact_arithmetic toy_first_then_stop () toy_tokenizer toy_babbler 1 0 1 ''Sampling'' 42
     128 \<lparr>rng = 0, page = []\<rparr>
     = (Inr ([3], 2, 1),
        \<lparr>rng = 2, page = [New_progress 0, Progress 0, Progress (1 / 128), Empty]\<rparr>) \<and>
   evaluate exact_arithmetic toy_first_then_stop () toy_tokenizer toy_babbler 1 0 1 ''Sampling'' 42
     128 \<lparr>rng = 2, page = []\<rparr>
     = (Inr ([], 1, 0), \<lparr>rng = 3, page = [New_progress 0, Progress 0, Empty]\<rparr>) \<and>
   [3 :: int] \<noteq> []"
  using first_then_stop_run_0 [of "[]"] by (simp add: first_then_stop_run_2)

section \<open>main: claims C6 and C9\<close>

text \<open>
  C6. For an upload that reads as an image, on a fresh page: the message
  \<^verbatim>\<open>Image is not a Chest X-ray\<close> is on the final page exactly when the sigmoid of the
  validator's output is strictly below 0.1, and the analysis is logged (the statement
  before \<open>evaluate\<close>) exactly when it is not. On a rejection \<open>main\<close> returns normally
  with the header, the image and the message only, and the random generator untouched;
  otherwise the page begins with the page \<open>evaluate\<close> leaves. A probability of exactly
  0.1 is accepted.
\<close>

theorem validator_gate_rejects_below_one_tenth:
  "read_image file = Inr img \<and>
   main tf categorical (transformer, tok) cxr_validator_model read_image sb (Some file)
      \<lparr>rng = g, page = []\<rparr> = (res, w') \<longrightarrow>
     (Info ''Image is not a Chest X-ray'' \<in> set (page w')
        \<longleftrightarrow> tf_nn_sigmoid (cxr_validator_model img) < 1 / 10) \<and>
     (Log_running_analysis \<in> set (page w')
        \<longleftrightarrow> \<not> tf_nn_sigmoid (cxr_validator_model img) < 1 / 10) \<and>
     (tf_nn_sigmoid (cxr_validator_model img) < 1 / 10 \<longrightarrow>
        res = Inr () \<and> rng w' = g \<and>
        page w' = [Title ''Chest X-ray AI Diagnosis Demo'',
          Text ''Made with Streamlit and Attention RNN'', Sidebar_title ''Configuration'',
          Image ''Uploaded Image'', Info ''Image is not a Chest X-ray'']) \<and>
     (\<not> tf_nn_sigmoid (cxr_validator_model img) < 1 / 10 \<longrightarrow>
        (\<exists>evs. page w' =
           page (snd (evaluate tf categorical img tok transformer (sb_temperature sb) (sb_top_k sb)
             (sb_top_p sb) (sb_options sb) (sb_seed sb) 128
             \<lparr>rng = g, page = [Title ''Chest X-ray AI Diagnosis Demo'',
                Text ''Made with Streamlit and Attention RNN'', Sidebar_title ''Configuration'',
                Image ''Uploaded Image'', Log_running_analysis,
         Spinner ''Generating report... Do not refresh or close window.'']\<rparr>)) @ evs)) \<and>
     (tf_nn_sigmoid (cxr_validator_model img) = 1 / 10 \<longrightarrow>
        Log_running_analysis \<in> set (page w') \<and>
        Info ''Image is not a Chest X-ray'' \<notin> set (page w'))"
proof
  assume a: "read_image file = Inr img \<and>
   main tf categorical (transformer, tok) cxr_validator_model read_image sb (Some file)
      \<lparr>rng = g, page = []\<rparr> = (res, w')"
  then have rd: "read_image file = Inr img"
    and m: "main tf categorical (transformer, tok) cxr_validator_model read_image sb (Some file)
      \<lparr>rng = g, page = []\<rparr> = (res, w')" by blast+
  let ?v = "tf_nn_sigmoid (cxr_validator_model img)"
  let ?W = "\<lparr>rng = g, page = [Title ''Chest X-ray AI Diagnosis Demo'',
           Text ''Made with Streamlit and Attention RNN'', Sidebar_title ''Configuration'',
           Image ''Uploaded Image'', Log_running_analysis,
         Spinner ''Generating report... Do not refresh or close window.'']\<rparr>"
  let ?E = "evaluate tf categorical img tok transformer (sb_temperature sb) (sb_top_k sb)
             (sb_top_p sb) (sb_options sb) (sb_seed sb) 128 ?W"
  have rej: "res = Inr () \<and> rng w' = g \<and>
        page w' = [Title ''Chest X-ray AI Diagnosis Demo'',
          Text ''Made with Streamlit and Attention RNN'', Sidebar_title ''Configuration'',
          Image ''Uploaded Image'', Info ''Image is not a Chest X-ray'']" if "?v < 1 / 10"
    using main_rejects [where read_image = read_image and cxr_validator_model = cxr_validator_model, OF rd that,
        of tf categorical transformer tok sb g] m by auto
  have acc: "\<exists>evs. page w' = page (snd ?E) @ evs \<and> Info ''Image is not a Chest X-ray'' \<notin> set evs"
    if "\<not> ?v < 1 / 10"
    using main_accepted_page [where read_image = read_image and cxr_validator_model = cxr_validator_model, OF rd that m] .
  have acc_log: "Log_running_analysis \<in> set (page w') \<and>
      Info ''Image is not a Chest X-ray'' \<notin> set (page w')" if ok: "\<not> ?v < 1 / 10"
  proof -
    from acc [OF ok] obtain evs where
      evs: "page w' = page (snd ?E) @ evs" "Info ''Image is not a Chest X-ray'' \<notin> set evs"
      by blast
    obtain r w1 where e: "?E = (r, w1)" by (cases ?E) auto
    from evaluate_page [OF e] obtain evs1 where
      e1: "page w1 = page ?W @ evs1"
      "set evs1 \<subseteq> range Progress \<union> {Empty, Write ''SHOULD NOT HAPPEN'', New_progress 0}"
      by blast
    from e1(2) have "Info ''Image is not a Chest X-ray'' \<notin> set evs1" by auto
    with evs e e1(1) show ?thesis by simp
  qed
  show "(Info ''Image is not a Chest X-ray'' \<in> set (page w') \<longleftrightarrow> ?v < 1 / 10) \<and>
     (Log_running_analysis \<in> set (page w') \<longleftrightarrow> \<not> ?v < 1 / 10) \<and>
     (?v < 1 / 10 \<longrightarrow>
        res = Inr () \<and> rng w' = g \<and>
        page w' = [Title ''Chest X-ray AI Diagnosis Demo'',
          Text ''Made with Streamlit and Attention RNN'', Sidebar_title ''Configuration'',
          Image ''Uploaded Image'', Info ''Image is not a Chest X-ray'']) \<and>
     (\<not> ?v < 1 / 10 \<longrightarrow> (\<exists>evs. page w' = page (snd ?E) @ evs)) \<and>
     (?v = 1 / 10 \<longrightarrow>
        Log_running_analysis \<in> set (page w') \<and>
        Info ''Image is not a Chest X-ray'' \<notin> set (page w'))"
  proof (cases "?v < 1 / 10")
    case True
    with rej [OF True] show ?thesis by simp
  next
    case False
    with acc [OF False] acc_log [OF False] show ?thesis by auto
  qed
qed

text \<open>
  The theorem on the small model: a validator output of \<open>- ln 9\<close> has probability
  exactly \<open>1/10\<close> and the report is generated; \<open>- ln 10\<close> has probability \<open>1/11\<close> and the
  upload is rejected.
\<close>

theorem validator_gate_rejects_below_one_tenth_witness:
  "(Inr :: unit \<Rightarrow> error + unit) () = Inr () \<and>
   tf_nn_sigmoid (- ln 9) = 1 / 10 \<and>
   main exact_arithmetic toy_categorical (toy_transformer, toy_tokenizer) (\<lambda>img. - ln 9) Inr
      \<lparr>sb_options = ''Greedy'', sb_seed = 42, sb_temperature = 1, sb_top_k = 0, sb_top_p = 1\<rparr>
      (Some ()) \<lparr>rng = 0, page = []\<rparr>
    = (Inr (), \<lparr>rng = 0, page = [Title ''Chest X-ray AI Diagnosis Demo'',
         Text ''Made with Streamlit and Attention RNN'', Sidebar_title ''Configuration'',
         Image ''Uploaded Image'', Log_running_analysis,
         Spinner ''Generating report... Do not refresh or close window.'',
         New_progress 0, Progress 0, Progress (1 / 128), Progress (1 / 64), Empty,
         Subheader ''Generated Report:'', Write ''lungs lungs '', Subheader ''Attention Plot:'',
         Subplot 1 ''lungs '', Pyplot, Button ''Regenerate Report'']\<rparr>) \<and>
   Log_running_analysis \<in> set [Title ''Chest X-ray AI Diagnosis Demo'',
         Text ''Made with Streamlit and Attention RNN'', Sidebar_title ''Configuration'',
         Image ''Uploaded Image'', Log_running_analysis,
         Spinner ''Generating report... Do not refresh or close window.'',
         New_progress 0, Progress 0, Progress (1 / 128), Progress (1 / 64), Empty,
         Subheader ''Generated Report:'', Write ''lungs lungs '', Subheader ''Attention Plot:'',
         Subplot 1 ''lungs '', Pyplot, Button ''Regenerate Report''] \<and>
   tf_nn_sigmoid (- ln 10) < 1 / 10 \<and>
   main exact_arithmetic toy_categorical (toy_transformer, toy_tokenizer) (\<lambda>img. - ln 10) Inr
      \<lparr>sb_options = ''Greedy'', sb_seed = 42, sb_temperature = 1, sb_top_k = 0, sb_top_p = 1\<rparr>
      (Some ()) \<lparr>rng = 0, page = []\<rparr>
    = (Inr (), \<lparr>rng = 0, page = [Title ''Chest X-ray AI Diagnosis Demo'',
         Text ''Made with Streamlit and Attention RNN'', Sidebar_title ''Configuration'',
         Image ''Uploaded Image'', Info ''Image is not a Chest X-ray'']\<rparr>)"
  using validator_gate_rejects_below_one_tenth [of Inr "()" "()" exact_arithmetic toy_categorical toy_transformer
      toy_tokenizer "\<lambda>img. - ln 9"
      "\<lparr>sb_options = ''Greedy'', sb_seed = 42, sb_temperature = 1, sb_top_k = 0, sb_top_p = 1\<rparr>"
      0 "Inr ()" "\<lparr>rng = 0, page = [Title ''Chest X-ray AI Diagnosis Demo'',
         Text ''Made with Streamlit and Attention RNN'', Sidebar_title ''Configuration'',
         Image ''Uploaded Image'', Log_running_analysis,
         Spinner ''Generating report... Do not refresh or close window.'',
         New_progress 0, Progress 0, Progress (1 / 128), Progress (1 / 64), Empty,
         Subheader ''Generated Report:'', Write ''lungs lungs '', Subheader ''Attention Plot:'',
         Subplot 1 ''lungs '', Pyplot, Button ''Regenerate Report'']\<rparr>"]
  by (simp add: toy_main_run [unfolded fresh_def] toy_main_rejected [unfolded fresh_def]
      sigmoid_ln9 sigmoid_ln10)

text \<open>
  C9. The claim is one overlay per generated token; the plotting loop runs over
  \<^verbatim>\<open>range(tokens - 1)\<close> and titles sub-plot \<open>i\<close> with \<^verbatim>\<open>result[i]\<close>, so the last generated
  token gets none. The run of \<open>main\<close> on the small model, with a validator output of 0
  (probability \<open>1/2\<close>): \<open>evaluate\<close> returns the two tokens \<open>[3, 3]\<close> and \<open>tokens = 2\<close>, and the
  page shows a single sub-plot, at position 1, titled with the first token.
\<close>

theorem attention_plot_misses_last_token:
  "evaluate exact_arithmetic toy_categorical () toy_tokenizer toy_transformer 1 0 1 ''Greedy'' 42 128
      \<lparr>rng = 0, page = [Title ''Chest X-ray AI Diagnosis Demo'',
         Text ''Made with Streamlit and Attention RNN'', Sidebar_title ''Configuration'',
         Image ''Uploaded Image'', Log_running_analysis,
         Spinner ''Generating report... Do not refresh or close window.'']\<rparr>
     = (Inr ([3, 3], 3, 2),
        \<lparr>rng = 0, page = [Title ''Chest X-ray AI Diagnosis Demo'',
         Text ''Made with Streamlit and Attention RNN'', Sidebar_title ''Configuration'',
         Image ''Uploaded Image'', Log_running_analysis,
         Spinner ''Generating report... Do not refresh or close window.'',
         New_progress 0, Progress 0, Progress (1 / 128), Progress (1 / 64), Empty]\<rparr>) \<and>
   main exact_arithmetic toy_categorical (toy_transformer, toy_tokenizer) (\<lambda>img. 0) Inr
      \<lparr>sb_options = ''Greedy'', sb_seed = 42, sb_temperature = 1, sb_top_k = 0, sb_top_p = 1\<rparr>
      (Some ()) \<lparr>rng = 0, page = []\<rparr>
    = (Inr (), \<lparr>rng = 0, page = [Title ''Chest X-ray AI Diagnosis Demo'',
         Text ''Made with Streamlit and Attention RNN'', Sidebar_title ''Configuration'',
         Image ''Uploaded Image'', Log_running_analysis,
         Spinner ''Generating report... Do not refresh or close window.'',
         New_progress 0, Progress 0, Progress (1 / 128), Progress (1 / 64), Empty,
         Subheader ''Generated Report:'', Write ''lungs lungs '', Subheader ''Attention Plot:'',
         Subplot 1 ''lungs '', Pyplot, Button ''Regenerate Report'']\<rparr>) \<and>
   subplots [Title ''Chest X-ray AI Diagnosis Demo'',
         Text ''Made with Streamlit and Attention RNN'', Sidebar_title ''Configuration'',
         Image ''Uploaded Image'', Log_running_analysis,
         Spinner ''Generating report... Do not refresh or close window.'',
         New_progress 0, Progress 0, Progress (1 / 128), Progress (1 / 64), Empty,
         Subheader ''Generated Report:'', Write ''lungs lungs '', Subheader ''Attention Plot:'',
         Subplot 1 ''lungs '', Pyplot, Button ''Regenerate Report''] = 1 \<and>
   length [3, 3 :: int] = 2 \<and> (1 :: nat) \<noteq> 2"
  by (simp add: toy_run_any toy_main_run_0 [unfolded fresh_def] subplots_def)

end
